theory Spec2Isabelle
  imports Main "HOL-Library.Char_ord" "HOL-Library.List_Lexorder"
begin

section \<open>CrisisIntel booking engine: \<open>book_service\<close>, \<open>book_appointment\<close> and the booking lifecycle\<close>

text \<open>
  The development embeds the booking handlers of \<open>Backend/crisisintel/api/views.py\<close>:
  \<open>book_service\<close>, \<open>book_appointment\<close>, \<open>request_cancel_service_booking\<close>,
  \<open>request_cancel_appointment\<close> and \<open>hide_service_booking\<close>, each as a function from the
  database state (and the request) to a response and the new database state.

  Representation of the data.
  \<^item> A timestamp (a SQL \<open>DATETIME\<close>, a Python \<open>datetime\<close>, and the
    \<open>'YYYY-MM-DD HH:MM:SS'\<close> text that the handlers write with \<open>strftime\<close>) is the
    integer number of microseconds since 1970-01-01 00:00:00, the resolution of
    \<open>datetime\<close>. \<open>DATE(x)\<close> of a stored time is the day number \<open>date_of x\<close>; the minute of
    the day is \<open>minute_of_day x\<close>.
  \<^item> The \<open>scheduled_at\<close> of a \<open>book_service\<close> request is the JSON value the client
    sent, text or not; the handler slices it and the database reads it, each in its own
    way. A text is a list of characters with codes below 256.
  \<^item> Times of day that the source handles as \<open>'HH:MM'\<close> text stay strings and go through
    the source's own \<open>hhmm_to_min\<close> and \<open>min_to_hhmm\<close>.
  \<^item> Statuses and error codes are the strings of the source; strings are compared as
    Python compares them, character by character.
  \<^item> A table is the list of its rows in insertion order; a table read by primary key
    only is a map.
\<close>

subsection \<open>Time\<close>

definition usec_per_sec :: int where
  "usec_per_sec = 1000000"

definition usec_per_min :: int where
  "usec_per_min = 60 * usec_per_sec"

definition usec_per_day :: int where
  "usec_per_day = 24 * 60 * usec_per_min"

definition date_of :: "int \<Rightarrow> int" where
  "date_of t = t div usec_per_day"

definition minute_of_day :: "int \<Rightarrow> int" where
  "minute_of_day t = (t mod usec_per_day) div usec_per_min"

text \<open>\<open>datetime(y, m, d, hh, mm, 0)\<close> for the day \<open>d\<close> and the minute \<open>m\<close> of that day.\<close>

definition at_minute :: "int \<Rightarrow> int \<Rightarrow> int" where
  "at_minute d m = d * usec_per_day + m * usec_per_min"

text \<open>\<open>strftime('%Y-%m-%d %H:%M:%S')\<close> drops the microseconds.\<close>

definition strftime_seconds :: "int \<Rightarrow> int" where
  "strftime_seconds t = t - t mod usec_per_sec"

subsection \<open>The calendar of \<open>datetime\<close>\<close>

text \<open>
  The proleptic Gregorian calendar as the module \<open>datetime\<close> computes it:
  \<open>_is_leap\<close>, \<open>_days_in_month\<close>, \<open>_days_before_year\<close>, \<open>_days_before_month\<close> and
  \<open>_ymd2ord\<close>, the number of the day counted from 0001-01-01 as day 1.
\<close>

definition is_leap :: "int \<Rightarrow> bool" where
  "is_leap year = (year mod 4 = 0 \<and> (year mod 100 \<noteq> 0 \<or> year mod 400 = 0))"

definition days_in_month_of :: "bool \<Rightarrow> int \<Rightarrow> int" where
  "days_in_month_of leap month =
     (if month = 2 \<and> leap then 29
      else [31, 28, 31, 30, 31, 30, 31, 31, 30, 31, 30, 31] ! nat (month - 1))"

definition days_in_month :: "int \<Rightarrow> int \<Rightarrow> int" where
  "days_in_month year month = days_in_month_of (is_leap year) month"

definition days_before_year :: "int \<Rightarrow> int" where
  "days_before_year year =
     (let y = year - 1 in y * 365 + y div 4 - y div 100 + y div 400)"

definition days_before_month_of :: "bool \<Rightarrow> int \<Rightarrow> int" where
  "days_before_month_of leap month =
     [0, 31, 59, 90, 120, 151, 181, 212, 243, 273, 304, 334] ! nat (month - 1)
       + (if month > 2 \<and> leap then 1 else 0)"

definition days_before_month :: "int \<Rightarrow> int \<Rightarrow> int" where
  "days_before_month year month = days_before_month_of (is_leap year) month"

definition ymd2ord :: "int \<Rightarrow> int \<Rightarrow> int \<Rightarrow> int" where
  "ymd2ord year month day = days_before_year year + days_before_month year month + day"

text \<open>
  The day of \<open>datetime(year, month, day, ...)\<close>, counted from 1970-01-01 (whose ordinal
  is 719163); \<open>None\<close> is the \<open>ValueError\<close> for a year outside 1 to 9999, a month outside 1
  to 12 or a day that the month does not have.
\<close>

definition datetime_day :: "int \<Rightarrow> int \<Rightarrow> int \<Rightarrow> int option" where
  "datetime_day year month day =
     (if 1 \<le> year \<and> year \<le> 9999 \<and> 1 \<le> month \<and> month \<le> 12
         \<and> 1 \<le> day \<and> day \<le> days_in_month year month
      then Some (ymd2ord year month day - 719163) else None)"

text \<open>
  \<open>_ord2ymd\<close>, from the ordinal back to year, month and day, on the day counted from
  1970-01-01.
\<close>

definition ord2ymd :: "int \<Rightarrow> int \<times> int \<times> int" where
  "ord2ymd ordinal =
     (let n = ordinal - 1;
          n400 = n div 146097; n = n mod 146097;
          n100 = n div 36524; n = n mod 36524;
          n4 = n div 1461; n = n mod 1461;
          n1 = n div 365; n = n mod 365;
          year = n400 * 400 + 1 + n100 * 100 + n4 * 4 + n1
      in if n1 = 4 \<or> n100 = 4 then (year - 1, 12, 31)
         else (let leapyear = (n1 = 3 \<and> (n4 \<noteq> 24 \<or> n100 = 3));
                   month = (n + 50) div 32;
                   preceding = days_before_month_of leapyear month
               in if preceding > n
                  then (year, month - 1,
                        n - (preceding - days_in_month_of leapyear (month - 1)) + 1)
                  else (year, month, n - preceding + 1)))"

subsection \<open>\<open>'HH:MM'\<close> strings\<close>

definition digit_char :: "int \<Rightarrow> char" where
  "digit_char d = ''0123456789'' ! nat d"

text \<open>The format \<open>{n:02d}\<close>, for \<open>0 \<le> n < 100\<close> (the only values \<open>min_to_hhmm\<close> formats).\<close>

definition fmt02 :: "int \<Rightarrow> string" where
  "fmt02 n = [digit_char (n div 10), digit_char (n mod 10)]"

text \<open>
  \<open>strftime('%Y-%m-%d')\<close> of a day, for the years 1000 to 9999, whose \<open>%Y\<close> has four
  digits.
\<close>

definition strftime_date :: "int \<Rightarrow> string" where
  "strftime_date day =
     (case ord2ymd (day + 719163) of
        (y, m, dd) \<Rightarrow> fmt02 (y div 100) @ fmt02 (y mod 100) @ ''-'' @ fmt02 m @ ''-'' @ fmt02 dd)"

text \<open>
  \<open>min_to_hhmm\<close> of \<open>book_service\<close>:
  \<^verbatim>\<open>minutes %= (24*60); h = minutes // 60; m = minutes % 60; return f"{h:02d}:{m:02d}"\<close>
\<close>

definition min_to_hhmm :: "int \<Rightarrow> string" where
  "min_to_hhmm minutes =
     (let minutes' = minutes mod (24 * 60);
          h = minutes' div 60;
          m = minutes' mod 60
      in fmt02 h @ '':'' @ fmt02 m)"

text \<open>\<open>str.split(sep)\<close> for a one-character separator.\<close>

fun split_on :: "char \<Rightarrow> string \<Rightarrow> string list" where
  "split_on sep [] = [[]]"
| "split_on sep (c # cs) =
     (if c = sep then [] # split_on sep cs
      else (case split_on sep cs of
              [] \<Rightarrow> [[c]]
            | w # ws \<Rightarrow> (c # w) # ws))"

text \<open>The value of an ASCII digit, from its character code (\<open>'0'\<close> is 48).\<close>

definition digit_val :: "char \<Rightarrow> int option" where
  "digit_val c =
     (let code = (of_char c :: nat)
      in if 48 \<le> code \<and> code \<le> 57 then Some (int code - 48) else None)"

text \<open>
  Python's \<open>int(s)\<close> on a text, in base ten: blanks at both ends are dropped (the
  characters 9 to 13, 32, 133 and 160 are the ones below 256 that \<open>int\<close> drops), one sign
  may lead, and what is left is a non-empty run of ASCII digits in which single
  underscores may stand between two digits. Anything else is the \<open>ValueError\<close> (\<open>None\<close>).
\<close>

definition is_space :: "char \<Rightarrow> bool" where
  "is_space c = ((of_char c :: nat) \<in> set [9, 10, 11, 12, 13, 32, 133, 160])"

fun digits_val :: "int \<Rightarrow> string \<Rightarrow> int option" where
  "digits_val acc [] = Some acc"
| "digits_val acc [c] = map_option (\<lambda>v. 10 * acc + v) (digit_val c)"
| "digits_val acc (c # c' # cs) =
     (if c = CHR ''_''
      then (case digit_val c' of
              None \<Rightarrow> None
            | Some v \<Rightarrow> digits_val (10 * acc + v) cs)
      else (case digit_val c of
              None \<Rightarrow> None
            | Some v \<Rightarrow> digits_val (10 * acc + v) (c' # cs)))"

definition py_digits :: "string \<Rightarrow> int option" where
  "py_digits s =
     (case s of
        [] \<Rightarrow> None
      | c # cs \<Rightarrow> (case digit_val c of None \<Rightarrow> None | Some v \<Rightarrow> digits_val v cs))"

definition strip :: "string \<Rightarrow> string" where
  "strip s = rev (dropWhile is_space (rev (dropWhile is_space s)))"

definition py_int :: "string \<Rightarrow> int option" where
  "py_int s =
     (case strip s of
        [] \<Rightarrow> None
      | c # cs \<Rightarrow>
          if c = CHR ''-'' then map_option uminus (py_digits cs)
          else if c = CHR ''+'' then py_digits cs
          else py_digits (c # cs))"

text \<open>
  \<open>hhmm_to_min\<close> of \<open>book_service\<close>:
  \<^verbatim>\<open>try: h, m = hhmm.split(':'); return int(h)*60 + int(m)
except Exception: return None\<close>
\<close>

definition hhmm_to_min :: "string \<Rightarrow> int option" where
  "hhmm_to_min hhmm =
     (case split_on CHR '':'' hhmm of
        [h, m] \<Rightarrow>
          (case py_int h of
             None \<Rightarrow> None
           | Some hv \<Rightarrow>
               (case py_int m of
                  None \<Rightarrow> None
                | Some mv \<Rightarrow> Some (hv * 60 + mv)))
      | _ \<Rightarrow> None)"

text \<open>
  \<open>[int(x) for x in text.split(sep)]\<close>: the numbers of the parts, or \<open>None\<close> when \<open>int\<close>
  raises on one of them.
\<close>

definition int_parts :: "char \<Rightarrow> string \<Rightarrow> int list option" where
  "int_parts sep text = those (map py_int (split_on sep text))"

text \<open>
  The day that lines 1503 to 1505 read from a date text:
  \<^verbatim>\<open>dparts = [int(x) for x in text.split('-')]; datetime(dparts[0], dparts[1], dparts[2], ...)\<close>.
  \<open>None\<close> is any of the exceptions (a part that is no number, fewer than three parts,
  a date that \<open>datetime\<close> refuses).
\<close>

definition py_date :: "string \<Rightarrow> int option" where
  "py_date text =
     (case int_parts CHR ''-'' text of
        Some (y # m # dd # rest) \<Rightarrow> datetime_day y m dd
      | _ \<Rightarrow> None)"

subsection \<open>The nearest-slot search of \<open>book_service\<close>\<close>

datatype py_exception = TypeError

text \<open>
  The inner loop \<open>for sign in ([0] if i == 0 else [+1, -1])\<close>: the first candidate
  \<open>cm = desired_min + sign * i * step\<close> inside the window whose \<open>'HH:MM'\<close> is not taken.
\<close>

definition signs_of :: "int \<Rightarrow> int list" where
  "signs_of i = (if i = 0 then [0] else [1, - 1])"

fun try_signs :: "int \<Rightarrow> int \<Rightarrow> int \<Rightarrow> int \<Rightarrow> string set \<Rightarrow> int \<Rightarrow> int list \<Rightarrow> string option" where
  "try_signs desired_min wstart_min wend_min step taken i [] = None"
| "try_signs desired_min wstart_min wend_min step taken i (sign # signs) =
     (let cm = desired_min + sign * i * step
      in if cm < wstart_min \<or> cm > wend_min
         then try_signs desired_min wstart_min wend_min step taken i signs
         else (let hhmm = min_to_hhmm cm
               in if hhmm \<notin> taken then Some hhmm
                  else try_signs desired_min wstart_min wend_min step taken i signs))"

text \<open>The outer loop \<open>for i in range(0, max_iters+1)\<close>, left at the first slot found.\<close>

fun search_slots :: "int \<Rightarrow> int \<Rightarrow> int \<Rightarrow> int \<Rightarrow> string set \<Rightarrow> int list \<Rightarrow> string option" where
  "search_slots desired_min wstart_min wend_min step taken [] = None"
| "search_slots desired_min wstart_min wend_min step taken (i # is) =
     (case try_signs desired_min wstart_min wend_min step taken i (signs_of i) of
        Some found \<Rightarrow> Some found
      | None \<Rightarrow> search_slots desired_min wstart_min wend_min step taken is)"

definition max_iters_of :: "int \<Rightarrow> int \<Rightarrow> int \<Rightarrow> int" where
  "max_iters_of wstart_min wend_min step = max 1 ((wend_min - wstart_min) div max 1 step)"

text \<open>
  The search proper, lines 1484 to 1497, on the clamped \<open>desired_min\<close>; \<open>None\<close> is the
  case \<open>found is None\<close>, answered with the error \<open>full\<close>.
\<close>

definition nearest_slot :: "int \<Rightarrow> int \<Rightarrow> int \<Rightarrow> int \<Rightarrow> string set \<Rightarrow> string option" where
  "nearest_slot desired_min wstart_min wend_min step taken =
     search_slots desired_min wstart_min wend_min step taken
       [0 .. max_iters_of wstart_min wend_min step]"

text \<open>
  The clamp of lines 1472 to 1474. Comparing an integer with \<open>None\<close> (a window bound
  that \<open>hhmm_to_min\<close> could not read) raises \<open>TypeError\<close>; a \<open>desired_min\<close> of \<open>None\<close> skips
  the clamp.
\<close>

definition clamp_desired :: "int option \<Rightarrow> int option \<Rightarrow> int option \<Rightarrow> py_exception + int option" where
  "clamp_desired desired_min wstart_min wend_min =
     (case desired_min of
        None \<Rightarrow> Inr None
      | Some d \<Rightarrow>
          (case wstart_min of
             None \<Rightarrow> Inl TypeError
           | Some ws \<Rightarrow>
               (let d1 = (if d < ws then ws else d)
                in (case wend_min of
                      None \<Rightarrow> Inl TypeError
                    | Some we \<Rightarrow> Inr (Some (if d1 > we then we else d1))))))"

text \<open>Python truthiness of an optional string: \<open>None\<close> and \<open>''\<close> are false.\<close>

definition truthy :: "string option \<Rightarrow> bool" where
  "truthy s = (case s of None \<Rightarrow> False | Some x \<Rightarrow> x \<noteq> [])"

text \<open>
  Lines 1468 to 1499 for a service that is not an ambulance: from the requested
  \<open>time_part\<close>, the window strings, the step and the taken set to the slot found.
  \<open>Inl TypeError\<close> is the uncaught exception, \<open>Inr None\<close> the error \<open>full\<close>.
\<close>

definition desired_of :: "string option \<Rightarrow> string option \<Rightarrow> string" where
  "desired_of time_part wstart =
     (case time_part of
        Some t \<Rightarrow> if t \<noteq> [] then t else (case wstart of Some w \<Rightarrow> if w \<noteq> [] then w else ''09:00'' | None \<Rightarrow> ''09:00'')
      | None \<Rightarrow> (case wstart of Some w \<Rightarrow> if w \<noteq> [] then w else ''09:00'' | None \<Rightarrow> ''09:00''))"

definition wstart_min_of :: "string option \<Rightarrow> int option" where
  "wstart_min_of wstart =
     (case wstart of Some w \<Rightarrow> if w \<noteq> [] then hhmm_to_min w else Some 0 | None \<Rightarrow> Some 0)"

definition wend_min_of :: "string option \<Rightarrow> int option" where
  "wend_min_of wend =
     (case wend of
        Some w \<Rightarrow> if w \<noteq> [] then hhmm_to_min w else Some (23 * 60 + 59)
      | None \<Rightarrow> Some (23 * 60 + 59))"

definition find_slot :: "string option \<Rightarrow> string option \<Rightarrow> string option \<Rightarrow> int \<Rightarrow> string set \<Rightarrow> py_exception + string option" where
  "find_slot time_part wstart wend step taken =
     (let desired_min = hhmm_to_min (desired_of time_part wstart);
          wstart_min = wstart_min_of wstart;
          wend_min = wend_min_of wend
      in (case clamp_desired desired_min wstart_min wend_min of
            Inl e \<Rightarrow> Inl e
          | Inr None \<Rightarrow> Inl TypeError
          | Inr (Some d) \<Rightarrow>
              (case (wstart_min, wend_min) of
                 (Some ws, Some we) \<Rightarrow> Inr (nearest_slot d ws we step taken)
               | _ \<Rightarrow> Inl TypeError)))"

text \<open>
  The search as the specification words it, to compare the loops with: the candidates
  in the order \<open>desired, desired + step, desired - step, desired + 2*step,
  desired - 2*step, ...\<close> up to the distance \<open>k * step\<close>, and the test a candidate
  passes, inside the window and not taken.
\<close>

definition probe_order :: "int \<Rightarrow> int \<Rightarrow> int \<Rightarrow> int list" where
  "probe_order desired step k =
     desired # concat (map (\<lambda>i. [desired + i * step, desired - i * step]) [1 .. k])"

definition free_in_window :: "int \<Rightarrow> int \<Rightarrow> string set \<Rightarrow> int \<Rightarrow> bool" where
  "free_in_window wstart_min wend_min taken cm =
     (wstart_min \<le> cm \<and> cm \<le> wend_min \<and> min_to_hhmm cm \<notin> taken)"

definition clamp :: "int \<Rightarrow> int \<Rightarrow> int \<Rightarrow> int" where
  "clamp desired wstart_min wend_min =
     (let d1 = (if desired < wstart_min then wstart_min else desired)
      in if d1 > wend_min then wend_min else d1)"

subsection \<open>Tables, requests and responses\<close>

text \<open>
  A row of \<open>hospital_services\<close>, with the columns \<open>book_service\<close> selects. A \<open>NULL\<close> is
  \<open>None\<close>.
\<close>

record hospital_service =
  hs_hospital_user_id :: nat
  hs_available :: int
  hs_max_per_day :: "int option"
  hs_window_start_time :: "string option"
  hs_window_end_time :: "string option"
  hs_duration_minutes :: "int option"
  hs_name :: string

text \<open>
  A row of \<open>service_bookings\<close> (the coordinates \<open>lat\<close> and \<open>lng\<close>, floating-point
  values that no handler below reads, are left out).
\<close>

record service_booking =
  sb_id :: nat
  sb_user_id :: nat
  sb_hospital_user_id :: nat
  sb_service_id :: nat
  sb_scheduled_at :: "int option"
  sb_status :: string
  sb_serial :: int
  sb_approx_time :: "string option"
  sb_notes :: "string option"
  sb_crisis_id :: "nat option"
  sb_hidden_by_user :: int

record doctor_schedule =
  ds_doctor_user_id :: nat
  ds_hospital_user_id :: nat
  ds_weekday :: int
  ds_start_time :: string
  ds_end_time :: string
  ds_max_per_day :: "int option"

record appointment =
  ap_id :: nat
  ap_patient_user_id :: nat
  ap_doctor_user_id :: nat
  ap_hospital_user_id :: nat
  ap_starts_at :: "int option"
  ap_ends_at :: "int option"
  ap_status :: string
  ap_serial :: int
  ap_approx_time :: "string option"
  ap_hidden_by_patient :: int

text \<open>
  The names of the advisory locks: \<open>f"svc:{service_id}:{date_part}"\<close> in
  \<open>book_service\<close>, kept as the service and the text of \<open>date_part\<close>, and
  \<open>f"appointments:{doctor_id}:{hospital_id}:{starts_at[:10]}"\<close> in \<open>book_appointment\<close>.
\<close>

datatype lock_key = Svc_lock nat string | Appointments_lock nat nat int

text \<open>
  The statements on the connection that the lock protocol is about, in the order in
  which they are executed: \<open>GET_LOCK\<close> with its result, \<open>RELEASE_LOCK\<close>, and the two
  \<open>INSERT\<close>s with the id of the new row.
\<close>

datatype db_op =
    Get_lock lock_key bool
  | Release_lock lock_key
  | Insert_service_booking nat
  | Insert_appointment nat

text \<open>
  The database. \<open>locks\<close> maps the name of a held advisory lock to the session that holds
  it; \<open>oplog\<close> is the log of the statements above, oldest first. \<open>crises\<close> maps a crisis
  to its incident, \<open>incidents\<close> an incident to its status, and
  \<open>incident_hospital_resources\<close> an incident and a hospital to \<open>available_beds\<close>.
\<close>

record db =
  hospital_services :: "nat \<rightharpoonup> hospital_service"
  service_bookings :: "service_booking list"
  crises :: "nat \<rightharpoonup> nat"
  incidents :: "nat \<rightharpoonup> string"
  incident_hospital_resources :: "nat \<times> nat \<rightharpoonup> int option"
  hospital_doctors :: "(nat \<times> nat) set"
  doctor_schedules :: "doctor_schedule list"
  appointments :: "appointment list"
  locks :: "lock_key \<rightharpoonup> nat"
  oplog :: "db_op list"

text \<open>
  A JSON value as the handlers use one: \<open>null\<close> (or a missing key), a text, or any
  other value (a number, a boolean, an array, an object), of which the handlers use only
  whether Python takes it as true; the second argument tells such values apart.
\<close>

datatype json = JNull | JStr string | JOther bool nat

definition truthy_json :: "json \<Rightarrow> bool" where
  "truthy_json v = (case v of JNull \<Rightarrow> False | JStr s \<Rightarrow> s \<noteq> [] | JOther b n \<Rightarrow> b)"

text \<open>
  What a request runs in: the clock (\<open>datetime.utcnow()\<close>; the reads within one request
  are taken at the same instant), the database session of the connection, whether the
  engine is MySQL (the only one with \<open>GET_LOCK\<close>), and how the database reads a
  parameter that comes from the request as a date: \<open>sql_date v\<close> is \<open>DATE(v)\<close>, and
  \<open>None\<close> is \<open>NULL\<close>. Nothing is assumed of it.
\<close>

record env =
  now :: int
  session :: nat
  mysql :: bool
  sql_date :: "json \<Rightarrow> int option"

text \<open>
  The body of a \<open>book_service\<close> request; \<open>rq_scheduled_at\<close> is
  \<open>data.get('scheduled_at')\<close>.
\<close>

record service_request =
  rq_service_id :: nat
  rq_hospital_user_id :: nat
  rq_scheduled_at :: json
  rq_notes :: "string option"
  rq_crisis_id :: "nat option"

record appointment_request =
  aq_doctor_user_id :: nat
  aq_hospital_user_id :: nat
  aq_starts_at :: "int option"
  aq_ends_at :: "int option"

text \<open>
  The responses: \<open>Error code status\<close> is \<open>JsonResponse({'error': code}, status=status)\<close>
  (further fields of an error body are left out); \<open>Booked id serial approx_time
  scheduled_at\<close> is the success body of the two booking handlers (\<open>book_appointment\<close>
  has no \<open>scheduled_at\<close>); \<open>Ok_status s\<close> is \<open>{'ok': True, 'status': s}\<close> and \<open>Ok\<close> is
  \<open>{'ok': True}\<close>; \<open>Raised e\<close> is an exception that leaves the handler.
\<close>

datatype response =
    Error string nat
  | Booked nat int "string option" "int option"
  | Ok_status string
  | Ok
  | Raised py_exception

subsection \<open>The advisory lock\<close>

text \<open>
  \<open>SELECT GET_LOCK(key, 10)\<close> on the session of the request: 1 when the lock is free or
  already held by this session, 0 when another session holds it for the ten seconds
  of the wait. Off MySQL the statement fails, and both handlers take the failure as
  "not locked".
\<close>

definition get_lock :: "env \<Rightarrow> db \<Rightarrow> lock_key \<Rightarrow> bool \<times> db" where
  "get_lock e d k =
     (if \<not> mysql e then (False, d)
      else (case locks d k of
              None \<Rightarrow>
                (True, d\<lparr>locks := (locks d)(k \<mapsto> session e), oplog := oplog d @ [Get_lock k True]\<rparr>)
            | Some s \<Rightarrow>
                if s = session e then (True, d\<lparr>oplog := oplog d @ [Get_lock k True]\<rparr>)
                else (False, d\<lparr>oplog := oplog d @ [Get_lock k False]\<rparr>)))"

text \<open>
  \<open>SELECT RELEASE_LOCK(key)\<close>: frees the lock when this session holds it and changes
  nothing otherwise; a failure of the statement is swallowed.
\<close>

definition release_lock :: "env \<Rightarrow> db \<Rightarrow> lock_key \<Rightarrow> db" where
  "release_lock e d k =
     (if \<not> mysql e then d
      else (if locks d k = Some (session e)
            then d\<lparr>locks := (locks d)(k := None), oplog := oplog d @ [Release_lock k]\<rparr>
            else d\<lparr>oplog := oplog d @ [Release_lock k]\<rparr>))"

subsection \<open>\<open>book_service\<close>\<close>

text \<open>\<open>str.lower()\<close> on ASCII letters, and the substring test \<open>p in s\<close>.\<close>

definition lower_char :: "char \<Rightarrow> char" where
  "lower_char c =
     (if CHR ''A'' \<le> c \<and> c \<le> CHR ''Z'' then char_of (of_char c + (32 :: nat)) else c)"

fun starts_with :: "string \<Rightarrow> string \<Rightarrow> bool" where
  "starts_with [] s = True"
| "starts_with (p # ps) [] = False"
| "starts_with (p # ps) (c # cs) = (p = c \<and> starts_with ps cs)"

fun contains :: "string \<Rightarrow> string \<Rightarrow> bool" where
  "contains p [] = (p = [])"
| "contains p (c # cs) = (starts_with p (c # cs) \<or> contains p cs)"

text \<open>\<open>'ambulance' in str(svc.get('name') or '').lower()\<close>\<close>

definition is_ambulance :: "hospital_service \<Rightarrow> bool" where
  "is_ambulance svc = contains ''ambulance'' (map lower_char (hs_name svc))"

text \<open>\<open>_incident_status_for_crisis\<close>: the status of the incident of a crisis, if any.\<close>

definition incident_status_for_crisis :: "db \<Rightarrow> nat \<Rightarrow> string option" where
  "incident_status_for_crisis d crisis_id =
     (case crises d crisis_id of
        None \<Rightarrow> None
      | Some incident_id \<Rightarrow> incidents d incident_id)"

text \<open>\<open>_require_crisis_open\<close>: the error when the incident is closed or cancelled.\<close>

definition require_crisis_open :: "db \<Rightarrow> nat \<Rightarrow> response option" where
  "require_crisis_open d crisis_id =
     (case incident_status_for_crisis d crisis_id of
        None \<Rightarrow> None
      | Some st \<Rightarrow>
          if st = ''closed'' \<or> st = ''cancelled''
          then Some (Error ''crisis_closed'' 400) else None)"

text \<open>
  The bed pre-check of lines 1295 to 1315: a crisis-linked booking of a service that
  is not an ambulance is refused when the hospital's \<open>available_beds\<close> for the incident
  is known and not positive.
\<close>

definition no_beds :: "db \<Rightarrow> service_request \<Rightarrow> hospital_service \<Rightarrow> bool" where
  "no_beds d rq svc =
     (case rq_crisis_id rq of
        None \<Rightarrow> False
      | Some crisis_id \<Rightarrow>
          crisis_id \<noteq> 0 \<and>
          (case crises d crisis_id of
             None \<Rightarrow> False
           | Some incident_id \<Rightarrow>
               incident_id \<noteq> 0 \<and> \<not> is_ambulance svc \<and>
               (case incident_hospital_resources d (incident_id, rq_hospital_user_id rq) of
                  Some (Some available_beds) \<Rightarrow> available_beds \<le> 0
                | _ \<Rightarrow> False)))"

text \<open>
  Lines 1280 to 1315 of \<open>book_service\<close>: the checks before any per-day rule, giving the
  error response or the row of the service.
\<close>

definition precheck :: "db \<Rightarrow> service_request \<Rightarrow> response + hospital_service" where
  "precheck d rq =
     (case (case rq_crisis_id rq of
              None \<Rightarrow> None
            | Some crisis_id \<Rightarrow> if crisis_id \<noteq> 0 then require_crisis_open d crisis_id else None) of
        Some err \<Rightarrow> Inl err
      | None \<Rightarrow>
          if \<not> (rq_service_id rq \<noteq> 0 \<and> rq_hospital_user_id rq \<noteq> 0)
          then Inl (Error ''missing_fields'' 400)
          else (case hospital_services d (rq_service_id rq) of
                  None \<Rightarrow> Inl (Error ''service_not_found'' 404)
                | Some svc \<Rightarrow>
                    if hs_hospital_user_id svc \<noteq> rq_hospital_user_id rq
                    then Inl (Error ''service_not_found'' 404)
                    else if hs_available svc \<noteq> 1
                    then Inl (Error ''service_unavailable'' 400)
                    else if no_beds d rq svc then Inl (Error ''no_beds'' 400)
                    else Inr svc))"

text \<open>
  The rows that all four per-day queries of \<open>book_service\<close> read:
  \<open>WHERE service_id=%s AND DATE(scheduled_at)=DATE(%s) AND status='booked'\<close>.
\<close>

definition on_date :: "int option \<Rightarrow> int \<Rightarrow> bool" where
  "on_date scheduled_at day =
     (case scheduled_at of None \<Rightarrow> False | Some t \<Rightarrow> date_of t = day)"

definition booked_rows :: "db \<Rightarrow> nat \<Rightarrow> int \<Rightarrow> service_booking list" where
  "booked_rows d service_id day =
     filter (\<lambda>r. sb_service_id r = service_id \<and> on_date (sb_scheduled_at r) day
                 \<and> sb_status r = ''booked'')
       (service_bookings d)"

text \<open>\<open>SELECT COUNT(1) c ...\<close> over those rows, and the same for one user.\<close>

definition count_booked :: "db \<Rightarrow> nat \<Rightarrow> int \<Rightarrow> int" where
  "count_booked d service_id day = int (length (booked_rows d service_id day))"

definition count_user_booked :: "db \<Rightarrow> nat \<Rightarrow> nat \<Rightarrow> int \<Rightarrow> int" where
  "count_user_booked d user_id service_id day =
     int (length (filter (\<lambda>r. sb_user_id r = user_id) (booked_rows d service_id day)))"

text \<open>
  The set \<open>taken\<close>: \<open>str(TIME(scheduled_at))[:5]\<close> of those rows, the zero-padded
  \<open>'HH:MM'\<close> of the minute of the day.
\<close>

definition taken_times :: "db \<Rightarrow> nat \<Rightarrow> int \<Rightarrow> string set" where
  "taken_times d service_id day =
     set (List.map_filter
            (\<lambda>r. map_option (\<lambda>t. min_to_hhmm (minute_of_day t)) (sb_scheduled_at r))
            (booked_rows d service_id day))"

text \<open>
  The same queries for the date that the database read from a parameter:
  \<open>DATE(scheduled_at) = NULL\<close> holds of no row. (A query that raises on the parameter
  is answered the same way by the handler: the count is 0 and the list is empty.)
\<close>

definition count_booked_on :: "db \<Rightarrow> nat \<Rightarrow> int option \<Rightarrow> int" where
  "count_booked_on d service_id day =
     (case day of None \<Rightarrow> 0 | Some dy \<Rightarrow> count_booked d service_id dy)"

definition count_user_booked_on :: "db \<Rightarrow> nat \<Rightarrow> nat \<Rightarrow> int option \<Rightarrow> int" where
  "count_user_booked_on d user_id service_id day =
     (case day of None \<Rightarrow> 0 | Some dy \<Rightarrow> count_user_booked d user_id service_id dy)"

definition taken_times_on :: "db \<Rightarrow> nat \<Rightarrow> int option \<Rightarrow> string set" where
  "taken_times_on d service_id day =
     (case day of None \<Rightarrow> {} | Some dy \<Rightarrow> taken_times d service_id dy)"

text \<open>\<open>int(svc.get('max_per_day') or 0)\<close> and \<open>int(svc.get('duration_minutes') or 30)\<close>\<close>

definition mpd_of :: "hospital_service \<Rightarrow> int" where
  "mpd_of svc = (case hs_max_per_day svc of None \<Rightarrow> 0 | Some n \<Rightarrow> n)"

definition step_of :: "hospital_service \<Rightarrow> int" where
  "step_of svc =
     (case hs_duration_minutes svc of None \<Rightarrow> 30 | Some n \<Rightarrow> if n = 0 then 30 else n)"

text \<open>\<open>str(ws)[:5] if ws else None\<close>\<close>

definition window_of :: "string option \<Rightarrow> string option" where
  "window_of w = (case w of None \<Rightarrow> None | Some x \<Rightarrow> if x = [] then None else Some (take 5 x))"

text \<open>
  The window check of lines 1384 to 1404, made only for a service that is not an
  ambulance: the request is refused when the window and the requested time are all
  given and readable and the time is outside the window.
\<close>

definition outside_window :: "hospital_service \<Rightarrow> string option \<Rightarrow> bool" where
  "outside_window svc time_part =
     (let wstart = window_of (hs_window_start_time svc);
          wend = window_of (hs_window_end_time svc)
      in truthy wstart \<and> truthy wend \<and> truthy time_part \<and>
         (case (hhmm_to_min (case time_part of Some t \<Rightarrow> t | None \<Rightarrow> []),
                hhmm_to_min (case wstart of Some w \<Rightarrow> w | None \<Rightarrow> []),
                hhmm_to_min (case wend of Some w \<Rightarrow> w | None \<Rightarrow> [])) of
            (Some tmin, Some wmin, Some emin) \<Rightarrow> tmin < wmin \<or> tmin > emin
          | _ \<Rightarrow> False))"

text \<open>\<open>execute\<close> returns \<open>lastrowid\<close>, the id the table's \<open>AUTO_INCREMENT\<close> key gives the row.\<close>

definition next_id :: "nat list \<Rightarrow> nat" where
  "next_id ids = Suc (fold max ids 0)"

text \<open>
  The row of the \<open>INSERT INTO service_bookings\<close> of line 1519, with \<open>status\<close>
  \<open>'booked'\<close>, and the statement itself.
\<close>

definition new_service_booking ::
  "nat \<Rightarrow> nat \<Rightarrow> service_request \<Rightarrow> int option \<Rightarrow> int \<Rightarrow> string option \<Rightarrow> service_booking" where
  "new_service_booking bid user_id rq scheduled_to_save serial approx_time_str =
     \<lparr>sb_id = bid, sb_user_id = user_id,
      sb_hospital_user_id = rq_hospital_user_id rq,
      sb_service_id = rq_service_id rq,
      sb_scheduled_at = scheduled_to_save, sb_status = ''booked'',
      sb_serial = serial, sb_approx_time = approx_time_str,
      sb_notes = map_option (take 1000) (rq_notes rq),
      sb_crisis_id = rq_crisis_id rq, sb_hidden_by_user = 0\<rparr>"

definition insert_service_booking ::
  "db \<Rightarrow> nat \<Rightarrow> service_request \<Rightarrow> int option \<Rightarrow> int \<Rightarrow> string option \<Rightarrow> nat \<times> db" where
  "insert_service_booking d user_id rq scheduled_to_save serial approx_time_str =
     (let bid = next_id (map sb_id (service_bookings d))
      in (bid, d\<lparr>service_bookings :=
                     service_bookings d @
                     [new_service_booking bid user_id rq scheduled_to_save serial approx_time_str],
                  oplog := oplog d @ [Insert_service_booking bid]\<rparr>))"

text \<open>
  The tail of \<open>book_service\<close>, lines 1511 to 1579, once a time is allocated: the
  \<open>finally\<close> block releases the lock, then the row is inserted and the success body
  returned (the notifications and the ambulance message that follow are best-effort,
  never fail the request and do not touch the booking tables).
\<close>

definition release_then_insert ::
  "env \<Rightarrow> db \<Rightarrow> lock_key \<Rightarrow> nat \<Rightarrow> service_request \<Rightarrow> int \<Rightarrow> string \<Rightarrow> int \<Rightarrow> response \<times> db" where
  "release_then_insert e d lock_key user_id rq serial approx_time_str scheduled_to_save =
     (let d2 = release_lock e d lock_key
      in (case insert_service_booking d2 user_id rq (Some scheduled_to_save) serial
                 (Some approx_time_str) of
            (bid, d3) \<Rightarrow>
              (Booked bid serial (Some approx_time_str) (Some scheduled_to_save), d3)))"

text \<open>
  The \<open>date_part\<close> of lines 1363 to 1382, when it is not \<open>None\<close>: the text
  \<open>now.strftime('%Y-%m-%d')\<close>, kept as the day of the clock that it names, or the slice
  \<open>scheduled_at[:10]\<close> of the request's text.
\<close>

datatype date_text = Today int | Slice string

text \<open>
  \<open>date_part\<close> and \<open>time_part\<close>: for an ambulance the day and the \<open>'HH:MM'\<close> of the
  clock; for a request without \<open>scheduled_at\<close> (Python takes \<open>None\<close>, \<open>''\<close>, \<open>0\<close>,
  \<open>false\<close>, \<open>[]\<close> and \<open>{}\<close> as false) today and no time; otherwise the slices
  \<open>scheduled_at[:10]\<close> and \<open>scheduled_at[11:16]\<close> of a text of at least 10 and at least
  16 characters, and \<open>None\<close> for a shorter text or a value that is no text.
\<close>

definition date_part_of :: "env \<Rightarrow> hospital_service \<Rightarrow> service_request \<Rightarrow> date_text option" where
  "date_part_of e svc rq =
     (if is_ambulance svc then Some (Today (date_of (now e)))
      else if \<not> truthy_json (rq_scheduled_at rq) then Some (Today (date_of (now e)))
      else (case rq_scheduled_at rq of
              JStr s \<Rightarrow> if length s \<ge> 10 then Some (Slice (take 10 s)) else None
            | _ \<Rightarrow> None))"

definition time_part_of :: "env \<Rightarrow> hospital_service \<Rightarrow> service_request \<Rightarrow> string option" where
  "time_part_of e svc rq =
     (if is_ambulance svc then Some (min_to_hhmm (minute_of_day (now e)))
      else if \<not> truthy_json (rq_scheduled_at rq) then None
      else (case rq_scheduled_at rq of
              JStr s \<Rightarrow> if length s \<ge> 16 then Some (take 5 (drop 11 s)) else None
            | _ \<Rightarrow> None))"

text \<open>
  \<open>DATE(effective_when)\<close> of the per-day checks, lines 1317 to 1356. \<open>effective_when\<close> is
  the text \<open>utcnow().strftime('%Y-%m-%d %H:%M:%S')\<close> for an ambulance and for a request
  without \<open>scheduled_at\<close>, which the database reads as today; otherwise it is the
  request's \<open>scheduled_at\<close> as it came, and the date is what the database makes of it.
\<close>

definition effective_date_of :: "env \<Rightarrow> hospital_service \<Rightarrow> service_request \<Rightarrow> int option" where
  "effective_date_of e svc rq =
     (if is_ambulance svc \<or> \<not> truthy_json (rq_scheduled_at rq) then Some (date_of (now e))
      else sql_date e (rq_scheduled_at rq))"

text \<open>
  \<open>DATE(date_part or scheduled_at)\<close> of the queries of lines 1418 to 1436: today, or
  what the database makes of the slice, or of the whole \<open>scheduled_at\<close> when there is no
  \<open>date_part\<close>.
\<close>

definition section_date_of :: "env \<Rightarrow> service_request \<Rightarrow> date_text option \<Rightarrow> int option" where
  "section_date_of e rq date_part =
     (case date_part of
        Some (Today day) \<Rightarrow> Some day
      | Some (Slice s) \<Rightarrow> sql_date e (JStr s)
      | None \<Rightarrow> sql_date e (rq_scheduled_at rq))"

text \<open>The text of \<open>date_part\<close> in the lock name: \<open>str(None)\<close> is \<open>'None'\<close>.\<close>

definition lock_date_of :: "date_text option \<Rightarrow> string" where
  "lock_date_of date_part =
     (case date_part of
        Some (Today day) \<Rightarrow> strftime_date day
      | Some (Slice s) \<Rightarrow> s
      | None \<Rightarrow> ''None'')"

text \<open>
  The day that lines 1503 to 1505 read from \<open>(date_part or '1970-01-01')\<close>; the text
  that \<open>strftime\<close> wrote from the clock is read back as the day of the clock.
\<close>

definition base_day_of :: "date_text option \<Rightarrow> int option" where
  "base_day_of date_part =
     (case date_part of
        Some (Today day) \<Rightarrow> Some day
      | Some (Slice s) \<Rightarrow> py_date s
      | None \<Rightarrow> py_date ''1970-01-01'')"

text \<open>
  The allocated time of lines 1501 to 1510: \<open>datetime(y, m, d, hh, mm, 0)\<close> from
  \<open>date_part\<close> and the slot found, or \<open>utcnow()\<close> when the date or the slot cannot be read
  or \<open>datetime\<close> refuses them.
\<close>

definition base_of :: "env \<Rightarrow> date_text option \<Rightarrow> string \<Rightarrow> int" where
  "base_of e date_part found =
     (case (base_day_of date_part, int_parts CHR '':'' found) of
        (Some day, Some (hv # mv # rest)) \<Rightarrow>
          if 0 \<le> hv \<and> hv \<le> 23 \<and> 0 \<le> mv \<and> mv \<le> 59
          then at_minute day (hv * 60 + mv) else now e
      | _ \<Rightarrow> now e)"

text \<open>
  Lines 1406 to 1519: the lock is requested (its result \<open>locked\<close> is not read again),
  the serial and the taken times are computed, the time is allocated, and the
  \<open>finally\<close> block releases the lock on every way out.
\<close>

definition locked_section ::
  "env \<Rightarrow> db \<Rightarrow> nat \<Rightarrow> service_request \<Rightarrow> hospital_service \<Rightarrow> date_text option \<Rightarrow> string option
     \<Rightarrow> response \<times> db" where
  "locked_section e d user_id rq svc date_part time_part =
     (let service_id = rq_service_id rq;
          lock_key = Svc_lock service_id (lock_date_of date_part)
      in (case get_lock e d lock_key of
            (locked, d1) \<Rightarrow>
              (let day = section_date_of e rq date_part;
                   serial = count_booked_on d1 service_id day + 1;
                   taken = taken_times_on d1 service_id day;
                   wstart = window_of (hs_window_start_time svc);
                   wend = window_of (hs_window_end_time svc);
                   step = step_of svc
               in if is_ambulance svc
                  then (case clamp_desired (hhmm_to_min (desired_of time_part wstart))
                               (wstart_min_of wstart) (wend_min_of wend) of
                          Inl exn \<Rightarrow> (Raised exn, release_lock e d1 lock_key)
                        | Inr _ \<Rightarrow>
                            (let eta = now e + 15 * usec_per_min
                             in release_then_insert e d1 lock_key user_id rq serial
                                  (min_to_hhmm (minute_of_day eta)) (strftime_seconds eta)))
                  else (case find_slot time_part wstart wend step taken of
                          Inl exn \<Rightarrow> (Raised exn, release_lock e d1 lock_key)
                        | Inr None \<Rightarrow> (Error ''full'' 400, release_lock e d1 lock_key)
                        | Inr (Some found) \<Rightarrow>
                            (let base = base_of e date_part found
                             in release_then_insert e d1 lock_key user_id rq serial
                                  (min_to_hhmm (minute_of_day base)) (strftime_seconds base))))))"

text \<open>\<open>book_service\<close> for the authenticated user \<open>user_id\<close>.\<close>

definition book_service :: "env \<Rightarrow> db \<Rightarrow> nat \<Rightarrow> service_request \<Rightarrow> response \<times> db" where
  "book_service e d user_id rq =
     (case precheck d rq of
        Inl err \<Rightarrow> (err, d)
      | Inr svc \<Rightarrow>
          (let service_id = rq_service_id rq;
               effective_date = effective_date_of e svc rq
           in if count_user_booked_on d user_id service_id effective_date > 0
              then (Error ''one_per_day'' 400, d)
              else if mpd_of svc > 0 \<and> count_booked_on d service_id effective_date \<ge> mpd_of svc
              then (Error ''full'' 400, d)
              else if \<not> is_ambulance svc \<and> outside_window svc (time_part_of e svc rq)
              then (Error ''outside_window'' 400, d)
              else locked_section e d user_id rq svc (date_part_of e svc rq)
                     (time_part_of e svc rq)))"

text \<open>
  The count of the specification, \<open>CountActive(provider_ref, day)\<close>: the bookings of the
  provider on the day with a status in \<open>{booked, confirmed}\<close>. The handlers do not
  compute it; it is what their counts are compared with.
\<close>

definition spec_count_active_service :: "db \<Rightarrow> nat \<Rightarrow> int \<Rightarrow> int" where
  "spec_count_active_service d service_id day =
     int (length (filter (\<lambda>r. sb_service_id r = service_id \<and> on_date (sb_scheduled_at r) day
                               \<and> (sb_status r = ''booked'' \<or> sb_status r = ''confirmed''))
                    (service_bookings d)))"

subsection \<open>\<open>book_appointment\<close>\<close>

text \<open>
  \<open>dt.weekday()\<close> (Monday is 0; day 0, 1970-01-01, is a Thursday) and the weekday of the
  schedule tables, \<open>(weekday + 1) % 7\<close> (Sunday is 0).
\<close>

definition python_weekday :: "int \<Rightarrow> int" where
  "python_weekday day = (day + 3) mod 7"

definition api_weekday :: "int \<Rightarrow> int" where
  "api_weekday t = (python_weekday (date_of t) + 1) mod 7"

text \<open>
  The schedule blocks of the doctor at the hospital on a weekday,
  \<open>ORDER BY start_time ASC\<close>.
\<close>

definition schedules_for :: "db \<Rightarrow> nat \<Rightarrow> nat \<Rightarrow> int \<Rightarrow> doctor_schedule list" where
  "schedules_for d doctor_id hospital_id weekday =
     sort_key ds_start_time
       (filter (\<lambda>s. ds_doctor_user_id s = doctor_id \<and> ds_hospital_user_id s = hospital_id
                    \<and> ds_weekday s = weekday)
          (doctor_schedules d))"

text \<open>
  \<open>_hhmm(iso)\<close>, the slice \<open>iso[11:16]\<close> of a timestamp: its \<open>'HH:MM'\<close>.
\<close>

definition hhmm_slice :: "int \<Rightarrow> string" where
  "hhmm_slice t = min_to_hhmm (minute_of_day t)"

text \<open>
  Lines 2268 to 2322: the checks of the request against the membership and the
  published schedule, giving the error or the start, the end and the blocks of the day.
  (The request's timestamps are well-formed by their type, so the answers
  \<open>invalid_time\<close> and, for an unreadable start, \<open>no_schedule\<close> do not arise.)
\<close>

definition appointment_precheck ::
  "db \<Rightarrow> appointment_request \<Rightarrow> response + (int \<times> int \<times> doctor_schedule list)" where
  "appointment_precheck d rq =
     (case (aq_starts_at rq, aq_ends_at rq) of
        (Some starts_at, Some ends_at) \<Rightarrow>
          if aq_doctor_user_id rq = 0 \<or> aq_hospital_user_id rq = 0
          then Inl (Error ''missing_fields'' 400)
          else if (aq_hospital_user_id rq, aq_doctor_user_id rq) \<notin> hospital_doctors d
          then Inl (Error ''not_member'' 400)
          else (let schedules = schedules_for d (aq_doctor_user_id rq) (aq_hospital_user_id rq)
                                  (api_weekday starts_at);
                    st_hm = hhmm_slice starts_at;
                    en_hm = hhmm_slice ends_at
                in if schedules = [] then Inl (Error ''no_schedule'' 400)
                   else if st_hm \<ge> en_hm then Inl (Error ''invalid_range'' 400)
                   else if \<not> list_ex (\<lambda>s. take 5 (ds_start_time s) \<le> st_hm
                                            \<and> en_hm \<le> take 5 (ds_end_time s)) schedules
                   then Inl (Error ''outside_schedule'' 400)
                   else Inr (starts_at, ends_at, schedules))
      | _ \<Rightarrow> Inl (Error ''missing_fields'' 400))"

text \<open>\<open>sum(int(x.get('max_per_day') or 0) for x in schedules)\<close>\<close>

definition max_per_day_of :: "doctor_schedule list \<Rightarrow> int" where
  "max_per_day_of schedules =
     sum_list (map (\<lambda>x. case ds_max_per_day x of None \<Rightarrow> 0 | Some n \<Rightarrow> n) schedules)"

text \<open>
  The rows of the doctor at the hospital with
  \<open>starts_at BETWEEN day_start AND day_end\<close>, where \<open>day_start\<close> is \<open>00:00:00\<close> and
  \<open>day_end\<close> is \<open>23:59:59\<close> of the requested day. No status is asked for.
\<close>

definition between_day :: "int option \<Rightarrow> int \<Rightarrow> bool" where
  "between_day starts_at day =
     (case starts_at of
        None \<Rightarrow> False
      | Some t \<Rightarrow> day * usec_per_day \<le> t
                  \<and> t \<le> day * usec_per_day + (24 * 60 * 60 - 1) * usec_per_sec)"

definition day_rows :: "db \<Rightarrow> nat \<Rightarrow> nat \<Rightarrow> int \<Rightarrow> appointment list" where
  "day_rows d doctor_id hospital_id day =
     filter (\<lambda>r. ap_doctor_user_id r = doctor_id \<and> ap_hospital_user_id r = hospital_id
                 \<and> between_day (ap_starts_at r) day)
       (appointments d)"


text \<open>
  The approximate time of lines 2360 to 2378: the start of the first block plus
  \<open>(serial-1)\<close> times the requested duration in minutes (at least one); \<open>None\<close> when
  the block's start cannot be read.
\<close>

definition approx_time_of :: "doctor_schedule list \<Rightarrow> int \<Rightarrow> int \<Rightarrow> int \<Rightarrow> string option" where
  "approx_time_of schedules starts_at ends_at serial =
     (let mins = max 1 ((ends_at - starts_at) div usec_per_min)
      in (case schedules of
            [] \<Rightarrow> Some (min_to_hhmm (minute_of_day starts_at))
          | s0 # _ \<Rightarrow>
              (case split_on CHR '':'' (ds_start_time s0) of
                 h # m # rest \<Rightarrow>
                   (case (py_int h, py_int m) of
                      (Some hv, Some mv) \<Rightarrow>
                        if 0 \<le> hv \<and> hv \<le> 23 \<and> 0 \<le> mv \<and> mv \<le> 59
                        then Some (min_to_hhmm (minute_of_day
                                (at_minute (date_of starts_at) (hv * 60 + mv)
                                 + (serial - 1) * mins * usec_per_min)))
                        else None
                    | _ \<Rightarrow> None)
               | _ \<Rightarrow> None)))"

text \<open>
  The row of the \<open>INSERT INTO appointments\<close> of line 2380, with \<open>status\<close> \<open>'booked'\<close>,
  and the statement itself.
\<close>

definition new_appointment ::
  "nat \<Rightarrow> nat \<Rightarrow> appointment_request \<Rightarrow> int \<Rightarrow> string option \<Rightarrow> appointment" where
  "new_appointment appt_id user_id rq serial approx_time =
     \<lparr>ap_id = appt_id, ap_patient_user_id = user_id,
      ap_doctor_user_id = aq_doctor_user_id rq,
      ap_hospital_user_id = aq_hospital_user_id rq,
      ap_starts_at = aq_starts_at rq, ap_ends_at = aq_ends_at rq,
      ap_status = ''booked'', ap_serial = serial,
      ap_approx_time = approx_time, ap_hidden_by_patient = 0\<rparr>"

definition insert_appointment ::
  "db \<Rightarrow> nat \<Rightarrow> appointment_request \<Rightarrow> int \<Rightarrow> string option \<Rightarrow> nat \<times> db" where
  "insert_appointment d user_id rq serial approx_time =
     (let appt_id = next_id (map ap_id (appointments d))
      in (appt_id, d\<lparr>appointments :=
                         appointments d @ [new_appointment appt_id user_id rq serial approx_time],
                      oplog := oplog d @ [Insert_appointment appt_id]\<rparr>))"

text \<open>
  The \<open>finally\<close> block of \<open>book_appointment\<close>: \<open>RELEASE_LOCK\<close> only when the lock was
  obtained.
\<close>

definition release_if :: "bool \<Rightarrow> env \<Rightarrow> db \<Rightarrow> lock_key \<Rightarrow> db" where
  "release_if got_lock e d k = (if got_lock \<and> mysql e then release_lock e d k else d)"

text \<open>\<open>book_appointment\<close> for the authenticated user \<open>user_id\<close>.\<close>

definition book_appointment :: "env \<Rightarrow> db \<Rightarrow> nat \<Rightarrow> appointment_request \<Rightarrow> response \<times> db" where
  "book_appointment e d user_id rq =
     (case appointment_precheck d rq of
        Inl err \<Rightarrow> (err, d)
      | Inr (starts_at, ends_at, schedules) \<Rightarrow>
          (let doctor_id = aq_doctor_user_id rq;
               hospital_id = aq_hospital_user_id rq;
               max_per_day = max_per_day_of schedules;
               day = date_of starts_at
           in if filter (\<lambda>r. ap_patient_user_id r = user_id) (day_rows d doctor_id hospital_id day)
                   \<noteq> []
              then (Error ''already_booked_same_day'' 400, d)
              else (let lock_key = Appointments_lock doctor_id hospital_id day
                    in (case (if mysql e then get_lock e d lock_key else (False, d)) of
                          (got_lock, d1) \<Rightarrow>
                            (let day_count = int (length (day_rows d1 doctor_id hospital_id day))
                             in if max_per_day \<noteq> 0 \<and> day_count \<ge> max_per_day
                                then (Error ''capacity_full'' 400, release_if got_lock e d1 lock_key)
                                else (let serial = day_count + 1;
                                          approx_time = approx_time_of schedules starts_at ends_at serial
                                      in (case insert_appointment d1 user_id rq serial approx_time of
                                            (appt_id, d2) \<Rightarrow>
                                              (Booked appt_id serial approx_time None,
                                               release_if got_lock e d2 lock_key))))))))"

subsection \<open>The requester's cancellation and hiding of a booking\<close>

text \<open>\<open>SELECT * FROM service_bookings WHERE id=%s\<close>, on the primary key.\<close>

definition service_booking_by_id :: "db \<Rightarrow> nat \<Rightarrow> service_booking option" where
  "service_booking_by_id d booking_id = find (\<lambda>r. sb_id r = booking_id) (service_bookings d)"





text \<open>
  \<open>hide_service_booking\<close>:
  \<open>UPDATE service_bookings SET hidden_by_user=1 WHERE id=%s AND user_id=%s\<close>. The handler
  catches an exception of this statement and answers \<open>hide_failed\<close>; the flag
  \<open>update_raises\<close> says whether the database raises one (the \<open>detail\<close> of the answer, the
  text of the exception, is left out).
\<close>

definition hide_service_booking :: "bool \<Rightarrow> db \<Rightarrow> nat \<Rightarrow> nat \<Rightarrow> response \<times> db" where
  "hide_service_booking update_raises d user_id booking_id =
     (case service_booking_by_id d booking_id of
        None \<Rightarrow> (Error ''not_found'' 404, d)
      | Some sb \<Rightarrow>
          if sb_user_id sb \<noteq> user_id then (Error ''forbidden'' 403, d)
          else if update_raises then (Error ''hide_failed'' 400, d)
          else (Ok,
                d\<lparr>service_bookings :=
                     map (\<lambda>r. if sb_id r = booking_id \<and> sb_user_id r = user_id
                               then r\<lparr>sb_hidden_by_user := 1\<rparr> else r)
                       (service_bookings d)\<rparr>))"

subsection \<open>Reading the statement log\<close>

text \<open>
  Whether every \<open>INSERT\<close> of a log is executed while the session holds the lock \<open>k\<close>:
  the log is replayed with the flag \<open>held\<close>, set by a successful \<open>GET_LOCK\<close> of \<open>k\<close> and
  cleared by its \<open>RELEASE_LOCK\<close>.
\<close>

fun inserts_under_lock :: "lock_key \<Rightarrow> bool \<Rightarrow> db_op list \<Rightarrow> bool" where
  "inserts_under_lock k held [] = True"
| "inserts_under_lock k held (Get_lock k' got # ops) =
     inserts_under_lock k (held \<or> (k' = k \<and> got)) ops"
| "inserts_under_lock k held (Release_lock k' # ops) =
     inserts_under_lock k (held \<and> k' \<noteq> k) ops"
| "inserts_under_lock k held (Insert_service_booking bid # ops) =
     (held \<and> inserts_under_lock k held ops)"
| "inserts_under_lock k held (Insert_appointment appt_id # ops) =
     (held \<and> inserts_under_lock k held ops)"

subsection \<open>Example data\<close>

text \<open>
  The states the concrete cases below run on. Day 20001 is 2024-10-05, a Saturday
  (weekday 6 of the schedule tables); \<open>at_minute 20001 555\<close> is
  \<open>2024-10-05 09:15:00\<close>. The clock of \<open>ex_env\<close> stands at \<open>2024-10-05 08:00:00\<close>.
\<close>

text \<open>
  The database of the examples reads as a date a text \<open>'YYYY-MM-DD'\<close> of digits that
  names a day of the calendar, alone or followed by a blank and a time of day; every
  other value it is given in the examples (the text \<open>'tomorrow'\<close>) is \<open>NULL\<close> to it.
\<close>

definition ex_sql_date :: "json \<Rightarrow> int option" where
  "ex_sql_date v =
     (case v of
        JStr s \<Rightarrow>
          if length s \<ge> 10 \<and> (length s = 10 \<or> s ! 10 = CHR '' '')
             \<and> s ! 4 = CHR ''-'' \<and> s ! 7 = CHR ''-''
          then (case (digits_val 0 (take 4 s) , digits_val 0 (take 2 (drop 5 s)),
                      digits_val 0 (take 2 (drop 8 s))) of
                  (Some y, Some m, Some dd) \<Rightarrow>
                    if list_all (\<lambda>c. c \<noteq> CHR ''_'') (take 10 s) then datetime_day y m dd else None
                | _ \<Rightarrow> None)
          else None
      | _ \<Rightarrow> None)"

definition ex_env :: env where
  "ex_env = \<lparr>now = at_minute 20001 480, session = 1, mysql = True, sql_date = ex_sql_date\<rparr>"

text \<open>
  Service 1 of hospital 2, open 09:00 to 12:00 in steps of 30 minutes, and an
  ambulance service without a window; the argument is \<open>max_per_day\<close>.
\<close>

definition ex_xray :: "int option \<Rightarrow> hospital_service" where
  "ex_xray mpd =
     \<lparr>hs_hospital_user_id = 2, hs_available = 1, hs_max_per_day = mpd,
      hs_window_start_time = Some ''09:00:00'', hs_window_end_time = Some ''12:00:00'',
      hs_duration_minutes = Some 30, hs_name = ''X-Ray''\<rparr>"

definition ex_ambulance :: "int option \<Rightarrow> hospital_service" where
  "ex_ambulance mpd =
     \<lparr>hs_hospital_user_id = 2, hs_available = 1, hs_max_per_day = mpd,
      hs_window_start_time = None, hs_window_end_time = None,
      hs_duration_minutes = None, hs_name = ''Ambulance''\<rparr>"

text \<open>A booking of service 1: its id, user, time, status and serial.\<close>

definition ex_booking :: "nat \<Rightarrow> nat \<Rightarrow> int \<Rightarrow> string \<Rightarrow> int \<Rightarrow> service_booking" where
  "ex_booking bid user_id t st serial =
     \<lparr>sb_id = bid, sb_user_id = user_id, sb_hospital_user_id = 2, sb_service_id = 1,
      sb_scheduled_at = Some t, sb_status = st, sb_serial = serial,
      sb_approx_time = Some (min_to_hhmm (minute_of_day t)), sb_notes = None,
      sb_crisis_id = None, sb_hidden_by_user = 0\<rparr>"

text \<open>An appointment with doctor 3 at hospital 2, a quarter of an hour long.\<close>

definition ex_appointment :: "nat \<Rightarrow> nat \<Rightarrow> int \<Rightarrow> string \<Rightarrow> int \<Rightarrow> appointment" where
  "ex_appointment appt_id user_id t st serial =
     \<lparr>ap_id = appt_id, ap_patient_user_id = user_id, ap_doctor_user_id = 3,
      ap_hospital_user_id = 2, ap_starts_at = Some t,
      ap_ends_at = Some (t + 15 * usec_per_min), ap_status = st, ap_serial = serial,
      ap_approx_time = None, ap_hidden_by_patient = 0\<rparr>"

text \<open>Doctor 3 sees patients at hospital 2 on Saturdays, 09:00 to 12:00, two a day.\<close>

definition ex_schedule :: doctor_schedule where
  "ex_schedule =
     \<lparr>ds_doctor_user_id = 3, ds_hospital_user_id = 2, ds_weekday = 6,
      ds_start_time = ''09:00:00'', ds_end_time = ''12:00:00'', ds_max_per_day = Some 2\<rparr>"

text \<open>
  The database with service 1, the given bookings and appointments, and the given
  advisory locks held.
\<close>

definition ex_db ::
  "hospital_service \<Rightarrow> service_booking list \<Rightarrow> appointment list \<Rightarrow> (lock_key \<rightharpoonup> nat) \<Rightarrow> db" where
  "ex_db svc bookings appts held =
     \<lparr>hospital_services = [1 \<mapsto> svc], service_bookings = bookings,
      crises = Map.empty, incidents = Map.empty, incident_hospital_resources = Map.empty,
      hospital_doctors = {(2, 3)}, doctor_schedules = [ex_schedule],
      appointments = appts, locks = held, oplog = []\<rparr>"

text \<open>
  The request for service 1 with the \<open>scheduled_at\<close> \<open>'2024-10-05 HH:MM'\<close> for the given
  \<open>'HH:MM'\<close>, the same request with any other \<open>scheduled_at\<close>, and the request for
  doctor 3 on day 20001 from 09:00 to 09:15.
\<close>

definition ex_request_at :: "json \<Rightarrow> service_request" where
  "ex_request_at v =
     \<lparr>rq_service_id = 1, rq_hospital_user_id = 2, rq_scheduled_at = v,
      rq_notes = None, rq_crisis_id = None\<rparr>"

definition ex_request :: "string \<Rightarrow> service_request" where
  "ex_request hhmm = ex_request_at (JStr (''2024-10-05 '' @ hhmm))"

definition ex_appointment_request :: appointment_request where
  "ex_appointment_request =
     \<lparr>aq_doctor_user_id = 3, aq_hospital_user_id = 2,
      aq_starts_at = Some (at_minute 20001 540), aq_ends_at = Some (at_minute 20001 555)\<rparr>"


text \<open>
  Databases in which user 7 holds a booked booking of service 1 and a booked
  appointment with doctor 3 on day 20001; holds only a cancelled booking and no
  appointment; holds a confirmed booking (of a service limited to one a day) and a
  cancelled appointment.
\<close>

definition ex_held_db :: db where
  "ex_held_db =
     ex_db (ex_xray None) [ex_booking 1 7 (at_minute 20001 540) ''booked'' 1]
       [ex_appointment 1 7 (at_minute 20001 600) ''booked'' 1] Map.empty"


definition ex_confirmed_db :: db where
  "ex_confirmed_db =
     ex_db (ex_xray (Some 1)) [ex_booking 1 7 (at_minute 20001 540) ''confirmed'' 1]
       [ex_appointment 1 7 (at_minute 20001 600) ''cancelled'' 1] Map.empty"

text \<open>
  The database of an ambulance service limited to one booking a day, with the given
  bookings; and an ambulance service with a window of 09:00 to 12:00 that holds a
  booked booking at 08:15 of day 20001, a quarter of an hour after the clock of
  \<open>ex_env\<close>.
\<close>

definition ex_ambulance_db :: "service_booking list \<Rightarrow> db" where
  "ex_ambulance_db bookings = ex_db (ex_ambulance (Some 1)) bookings [] Map.empty"

definition ex_windowed_ambulance :: hospital_service where
  "ex_windowed_ambulance =
     (ex_ambulance None)\<lparr>hs_window_start_time := Some ''09:00:00'',
                          hs_window_end_time := Some ''12:00:00''\<rparr>"

definition ex_windowed_db :: db where
  "ex_windowed_db =
     ex_db ex_windowed_ambulance [ex_booking 1 4 (at_minute 20001 495) ''booked'' 1] [] Map.empty"

text \<open>
  An empty database in which another session, 9, holds the advisory locks of service
  1 and of doctor 3 for day 20001.
\<close>

definition ex_locked_db :: db where
  "ex_locked_db =
     ex_db (ex_xray None) [] []
       [Svc_lock 1 ''2024-10-05'' \<mapsto> 9, Appointments_lock 3 2 20001 \<mapsto> 9]"

section \<open>Properties\<close>

subsection \<open>\<open>'HH:MM'\<close> strings are read back\<close>

lemma digit_roundtrip:
  assumes "0 \<le> a" "a < 10"
  shows "digit_val (digit_char a) = Some a" and "digit_char a \<noteq> CHR '':''"
    and "\<not> is_space (digit_char a)" and "digit_char a \<noteq> CHR ''-''"
    and "digit_char a \<noteq> CHR ''+''" and "digit_char a \<noteq> CHR ''_''"
proof -
  from assms have "a = 0 \<or> a = 1 \<or> a = 2 \<or> a = 3 \<or> a = 4 \<or> a = 5 \<or> a = 6 \<or> a = 7 \<or> a = 8 \<or> a = 9"
    by arith
  then show "digit_val (digit_char a) = Some a" and "digit_char a \<noteq> CHR '':''"
    and "\<not> is_space (digit_char a)" and "digit_char a \<noteq> CHR ''-''"
    and "digit_char a \<noteq> CHR ''+''" and "digit_char a \<noteq> CHR ''_''"
    by (auto simp: digit_val_def digit_char_def is_space_def)
qed

lemma fmt02_roundtrip:
  assumes "0 \<le> n" "n < 100"
  shows "py_int (fmt02 n) = Some n" and "CHR '':'' \<notin> set (fmt02 n)"
proof -
  have a: "0 \<le> n div 10" "n div 10 < 10" "0 \<le> n mod 10" "n mod 10 < 10"
    using assms by auto
  show "py_int (fmt02 n) = Some n"
    using digit_roundtrip[OF a(1,2)] digit_roundtrip[OF a(3,4)]
    by (simp add: py_int_def strip_def py_digits_def fmt02_def)
  show "CHR '':'' \<notin> set (fmt02 n)"
    using digit_roundtrip(2)[OF a(1,2)] digit_roundtrip(2)[OF a(3,4)]
    by (auto simp: fmt02_def)
qed

lemma split_on_hhmm:
  "CHR '':'' \<notin> set a \<Longrightarrow> CHR '':'' \<notin> set b \<Longrightarrow> split_on CHR '':'' (a @ '':'' @ b) = [a, b]"
proof (induction a)
  case Nil
  have "split_on CHR '':'' b = [b]" using Nil(2)
    by (induction b) (auto split: list.splits)
  then show ?case by simp
next
  case (Cons x a)
  then show ?case by auto
qed

lemma min_to_hhmm_parts:
  fixes cm :: int
  defines "k \<equiv> cm mod 1440"
  shows "split_on CHR '':'' (min_to_hhmm cm) = [fmt02 (k div 60), fmt02 (k mod 60)]"
    and "py_int (fmt02 (k div 60)) = Some (k div 60)"
    and "py_int (fmt02 (k mod 60)) = Some (k mod 60)"
    and "0 \<le> k div 60 \<and> k div 60 \<le> 23 \<and> 0 \<le> k mod 60 \<and> k mod 60 \<le> 59"
proof -
  have k: "0 \<le> k" "k < 1440" by (simp_all add: k_def)
  have h: "0 \<le> k div 60" "k div 60 < 100" "0 \<le> k mod 60" "k mod 60 < 100"
    using k by auto
  have "min_to_hhmm cm = fmt02 (k div 60) @ '':'' @ fmt02 (k mod 60)"
    by (simp add: min_to_hhmm_def Let_def k_def)
  moreover have "split_on CHR '':'' (fmt02 (k div 60) @ '':'' @ fmt02 (k mod 60))
                   = [fmt02 (k div 60), fmt02 (k mod 60)]"
    by (rule split_on_hhmm) (use fmt02_roundtrip(2) h in blast)+
  ultimately show "split_on CHR '':'' (min_to_hhmm cm) = [fmt02 (k div 60), fmt02 (k mod 60)]"
    by simp
  show "py_int (fmt02 (k div 60)) = Some (k div 60)" "py_int (fmt02 (k mod 60)) = Some (k mod 60)"
    using fmt02_roundtrip(1) h by blast+
  show "0 \<le> k div 60 \<and> k div 60 \<le> 23 \<and> 0 \<le> k mod 60 \<and> k mod 60 \<le> 59"
    using k by auto
qed

lemma hhmm_roundtrip: "hhmm_to_min (min_to_hhmm m) = Some (m mod (24 * 60))"
  by (simp add: hhmm_to_min_def min_to_hhmm_parts)

text \<open>
  A slot that the search found is read back by lines 1503 to 1505: the allocated time is
  the slot on the day read from \<open>date_part\<close>, and the clock when that day cannot be read.
\<close>

lemma base_of_found:
  "base_of e dp (min_to_hhmm cm) =
     (case base_day_of dp of Some day \<Rightarrow> at_minute day (cm mod (24 * 60)) | None \<Rightarrow> now e)"
  using min_to_hhmm_parts(4)[of cm]
  by (simp add: base_of_def int_parts_def min_to_hhmm_parts(1,2,3) split: option.splits)

lemma date_of_at_minute:
  assumes "0 \<le> m" "m < 1440"
  shows "date_of (strftime_seconds (at_minute dp m)) = dp"
    and "minute_of_day (at_minute dp m) = m"
    and "strftime_seconds (at_minute dp m) = at_minute dp m"
proof -
  have s: "at_minute dp m mod usec_per_sec = 0"
    by (simp add: at_minute_def usec_per_day_def usec_per_min_def usec_per_sec_def)
  show 3: "strftime_seconds (at_minute dp m) = at_minute dp m"
    by (simp add: strftime_seconds_def s)
  have "at_minute dp m = dp * 86400000000 + m * 60000000"
    by (simp add: at_minute_def usec_per_day_def usec_per_min_def usec_per_sec_def)
  moreover have "0 \<le> m * 60000000" "m * 60000000 < 86400000000" using assms by auto
  ultimately have "at_minute dp m div 86400000000 = dp"
      "at_minute dp m mod 86400000000 = m * 60000000"
    by (simp_all add: div_pos_pos_trivial)
  then show "date_of (strftime_seconds (at_minute dp m)) = dp" "minute_of_day (at_minute dp m) = m"
    by (simp_all add: 3 date_of_def minute_of_day_def usec_per_day_def usec_per_min_def
          usec_per_sec_def)
qed

subsection \<open>The search loops find the first free candidate of the probe order\<close>

lemma find_append: "find P (xs @ ys) = (case find P xs of None \<Rightarrow> find P ys | Some x \<Rightarrow> Some x)"
  by (induction xs) auto

lemma try_signs_find:
  "try_signs d ws we step taken i sgs =
     map_option min_to_hhmm (find (free_in_window ws we taken) (map (\<lambda>sg. d + sg * i * step) sgs))"
  by (induction sgs) (auto simp: free_in_window_def Let_def)

lemma search_slots_find:
  "search_slots d ws we step taken js =
     map_option min_to_hhmm
       (find (free_in_window ws we taken)
          (concat (map (\<lambda>i. map (\<lambda>sg. d + sg * i * step) (signs_of i)) js)))"
  by (induction js) (auto simp: try_signs_find find_append split: option.splits)

lemma probes_eq:
  "concat (map (\<lambda>i. map (\<lambda>sg. d + sg * i * step) (signs_of i)) [0 .. max_iters_of ws we step])
     = probe_order d step (max_iters_of ws we step)"
proof -
  have k: "0 \<le> max_iters_of ws we step" by (simp add: max_iters_of_def)
  have u: "[0 .. max_iters_of ws we step] = 0 # [1 .. max_iters_of ws we step]"
    using k by (simp add: upto_rec1)
  have m: "map (\<lambda>i. map (\<lambda>sg. d + sg * i * step) (signs_of i)) [1 .. max_iters_of ws we step]
     = map (\<lambda>i. [d + i * step, d - i * step]) [1 .. max_iters_of ws we step]"
    by (rule map_cong) (auto simp: signs_of_def)
  show ?thesis
    unfolding u probe_order_def by (simp add: m) (simp add: signs_of_def)
qed

lemma nearest_slot_find:
  "nearest_slot d ws we step taken =
     map_option min_to_hhmm (find (free_in_window ws we taken) (probe_order d step (max_iters_of ws we step)))"
  by (simp add: nearest_slot_def search_slots_find probes_eq)

lemma find_first_hit:
  "\<forall>x\<in>set xs. \<not> P x \<Longrightarrow> P a \<Longrightarrow> find P (xs @ a # ys) = Some a"
  by (induction xs) auto

lemma probe_order_split:
  assumes "1 \<le> i" "i \<le> k"
  shows "probe_order d step k =
           probe_order d step (i - 1) @ (d + i * step) # (d - i * step)
             # concat (map (\<lambda>j. [d + j * step, d - j * step]) [i + 1 .. k])"
proof -
  have "[1 .. k] = [1 .. i - 1] @ i # [i + 1 .. k]"
    using assms upto_split1[of 1 i k] upto_rec1[of i k] by simp
  then show ?thesis by (simp add: probe_order_def)
qed

lemma later_preferred:
  assumes "1 \<le> i" "i \<le> max_iters_of ws we step"
    "\<forall>cm\<in>set (probe_order d step (i - 1)). \<not> free_in_window ws we taken cm"
    "free_in_window ws we taken (d + i * step)"
  shows "nearest_slot d ws we step taken = Some (min_to_hhmm (d + i * step))"
  unfolding nearest_slot_find probe_order_split[OF assms(1,2)]
  by (simp add: find_first_hit[OF assms(3,4)])

lemma clamp_desired_clamp:
  "clamp_desired (Some desired) (Some ws) (Some we) = Inr (Some (clamp desired ws we))"
  by (simp add: clamp_desired_def clamp_def Let_def)

lemma find_slot_nearest:
  assumes "hhmm_to_min (desired_of tp wstart) = Some desired"
    "wstart_min_of wstart = Some ws" "wend_min_of wend = Some we"
  shows "find_slot tp wstart wend step taken = Inr (nearest_slot (clamp desired ws we) ws we step taken)"
  by (simp add: find_slot_def assms clamp_desired_clamp)

lemma nearest_slot_None:
  "nearest_slot d ws we step taken = None \<longleftrightarrow>
     (\<forall>cm\<in>set (probe_order d step (max_iters_of ws we step)).
        ws \<le> cm \<and> cm \<le> we \<longrightarrow> min_to_hhmm cm \<in> taken)"
  unfolding nearest_slot_find by (auto simp: find_None_iff free_in_window_def)

lemma nearest_slot_Some:
  assumes "nearest_slot d ws we step taken = Some s"
  shows "s \<notin> taken \<and>
         (\<exists>cm\<in>set (probe_order d step (max_iters_of ws we step)).
            ws \<le> cm \<and> cm \<le> we \<and> s = min_to_hhmm cm
            \<and> (0 \<le> ws \<and> we < 24 * 60 \<longrightarrow> hhmm_to_min s = Some cm))"
proof -
  from assms obtain cm where
    c: "find (free_in_window ws we taken) (probe_order d step (max_iters_of ws we step)) = Some cm"
       "s = min_to_hhmm cm"
    unfolding nearest_slot_find by auto
  from c(1) have m: "cm \<in> set (probe_order d step (max_iters_of ws we step))"
      "free_in_window ws we taken cm"
    by (auto simp: find_Some_iff)
  have "0 \<le> ws \<and> we < 24 * 60 \<longrightarrow> hhmm_to_min s = Some cm"
    using m(2) by (auto simp: c(2) hhmm_roundtrip free_in_window_def)
  then show ?thesis
    using m c(2) by (auto simp: free_in_window_def)
qed


text \<open>
  The probes cover the window: every candidate \<open>d + k * step\<close> inside the window, for any
  whole \<open>k\<close>, is one of those probed, whatever the step.
\<close>

lemma probe_order_mem:
  "cm \<in> set (probe_order d step k) \<longleftrightarrow>
     cm = d \<or> (\<exists>i. 1 \<le> i \<and> i \<le> k \<and> (cm = d + i * step \<or> cm = d - i * step))"
  by (auto simp: probe_order_def)

lemma window_candidate_bound:
  fixes k step :: int
  assumes "step \<noteq> 0" "\<bar>k * step\<bar> \<le> w"
  shows "\<bar>k\<bar> \<le> max 1 (w div max 1 step)"
proof (cases "0 < step")
  case True
  have "\<bar>k\<bar> * step \<le> w" using assms(2) True by (simp add: abs_mult)
  then have "(\<bar>k\<bar> * step) div step \<le> w div step"
    using True by (intro zdiv_mono1) simp_all
  then have "\<bar>k\<bar> \<le> w div step" using True by simp
  then show ?thesis using True by simp
next
  case False
  then have n: "1 \<le> \<bar>step\<bar>" using assms(1) by simp
  have "\<bar>k\<bar> * 1 \<le> \<bar>k\<bar> * \<bar>step\<bar>"
    by (rule mult_left_mono[OF n]) simp
  then have "\<bar>k\<bar> \<le> w" using assms(2) by (simp add: abs_mult)
  moreover have "max 1 step = 1" using False by simp
  ultimately show ?thesis by simp
qed

lemma window_candidate_probed:
  assumes "ws \<le> d" "d \<le> we" "ws \<le> d + k * step" "d + k * step \<le> we"
  shows "d + k * step \<in> set (probe_order d step (max_iters_of ws we step))"
proof (cases "step = 0 \<or> k = 0")
  case True
  then show ?thesis by (auto simp: probe_order_mem)
next
  case False
  have "\<bar>k * step\<bar> \<le> we - ws" using assms by (simp add: abs_le_iff)
  with False have b: "\<bar>k\<bar> \<le> max_iters_of ws we step"
    unfolding max_iters_of_def by (intro window_candidate_bound) simp_all
  show ?thesis
  proof (cases "0 < k")
    case True
    with b have "1 \<le> k \<and> k \<le> max_iters_of ws we step" by simp
    then show ?thesis unfolding probe_order_mem by blast
  next
    case neg: False
    with False b have "1 \<le> - k \<and> - k \<le> max_iters_of ws we step" by simp
    moreover have "d + k * step = d - (- k) * step" by simp
    ultimately show ?thesis unfolding probe_order_mem by blast
  qed
qed

lemma search_complete:
  assumes "ws \<le> d" "d \<le> we"
  shows "nearest_slot d ws we step taken = None \<longleftrightarrow>
           (\<forall>k. ws \<le> d + k * step \<and> d + k * step \<le> we \<longrightarrow> min_to_hhmm (d + k * step) \<in> taken)"
proof
  assume n: "nearest_slot d ws we step taken = None"
  show "\<forall>k. ws \<le> d + k * step \<and> d + k * step \<le> we \<longrightarrow> min_to_hhmm (d + k * step) \<in> taken"
  proof (intro allI impI)
    fix k assume w: "ws \<le> d + k * step \<and> d + k * step \<le> we"
    then have "d + k * step \<in> set (probe_order d step (max_iters_of ws we step))"
      using window_candidate_probed[OF assms] by blast
    with n w show "min_to_hhmm (d + k * step) \<in> taken"
      unfolding nearest_slot_None by blast
  qed
next
  assume a: "\<forall>k. ws \<le> d + k * step \<and> d + k * step \<le> we \<longrightarrow> min_to_hhmm (d + k * step) \<in> taken"
  show "nearest_slot d ws we step taken = None"
    unfolding nearest_slot_None
  proof (intro ballI impI)
    fix cm assume m: "cm \<in> set (probe_order d step (max_iters_of ws we step))"
      and w: "ws \<le> cm \<and> cm \<le> we"
    from m obtain k where "cm = d + k * step"
      unfolding probe_order_mem
    proof (elim disjE exE conjE)
      assume "cm = d" then have "cm = d + 0 * step" by simp
      then show ?thesis using that by blast
    next
      fix i assume "cm = d + i * step" then show ?thesis using that by blast
    next
      fix i assume "cm = d - i * step" then have "cm = d + (- i) * step" by simp
      then show ?thesis using that by blast
    qed
    with a w show "min_to_hhmm cm \<in> taken" by blast
  qed
qed
subsection \<open>The lock statements leave the booking tables alone\<close>

lemma get_lock_frame:
  "service_bookings (snd (get_lock e d k)) = service_bookings d"
  "appointments (snd (get_lock e d k)) = appointments d"
  by (auto simp: get_lock_def split: option.splits)

lemma release_lock_frame:
  "service_bookings (release_lock e d k) = service_bookings d"
  "appointments (release_lock e d k) = appointments d"
  by (auto simp: release_lock_def)

lemma release_if_frame:
  "service_bookings (release_if g e d k) = service_bookings d"
  "appointments (release_if g e d k) = appointments d"
  by (auto simp: release_if_def release_lock_frame)

lemma get_lock_reads:
  "count_booked (snd (get_lock e d k)) s dy = count_booked d s dy"
  "taken_times (snd (get_lock e d k)) s dy = taken_times d s dy"
  "day_rows (snd (get_lock e d k)) a b dy = day_rows d a b dy"
  "count_booked_on (snd (get_lock e d k)) s dyo = count_booked_on d s dyo"
  "taken_times_on (snd (get_lock e d k)) s dyo = taken_times_on d s dyo"
  by (simp_all add: count_booked_def booked_rows_def taken_times_def day_rows_def get_lock_frame
        count_booked_on_def taken_times_on_def split: option.splits)

lemma release_then_insert_result:
  assumes "service_bookings d1 = service_bookings d"
  shows "fst (release_then_insert e d1 k u rq serial approx sched)
           = Booked (next_id (map sb_id (service_bookings d))) serial (Some approx) (Some sched)"
    and "service_bookings (snd (release_then_insert e d1 k u rq serial approx sched))
           = service_bookings d @
             [new_service_booking (next_id (map sb_id (service_bookings d))) u rq (Some sched) serial (Some approx)]"
  using assms
  by (simp_all add: release_then_insert_def insert_service_booking_def Let_def release_lock_frame)

lemma locked_section_unfold:
  "locked_section e d u rq svc dp tp =
     (let k = Svc_lock (rq_service_id rq) (lock_date_of dp);
          d1 = snd (get_lock e d k);
          serial = count_booked_on d (rq_service_id rq) (section_date_of e rq dp) + 1;
          wstart = window_of (hs_window_start_time svc);
          wend = window_of (hs_window_end_time svc)
      in if is_ambulance svc
         then (case clamp_desired (hhmm_to_min (desired_of tp wstart)) (wstart_min_of wstart) (wend_min_of wend) of
                 Inl exn \<Rightarrow> (Raised exn, release_lock e d1 k)
               | Inr x \<Rightarrow> release_then_insert e d1 k u rq serial
                           (min_to_hhmm (minute_of_day (now e + 15 * usec_per_min)))
                           (strftime_seconds (now e + 15 * usec_per_min)))
         else (case find_slot tp wstart wend (step_of svc) (taken_times_on d (rq_service_id rq) (section_date_of e rq dp)) of
                 Inl exn \<Rightarrow> (Raised exn, release_lock e d1 k)
               | Inr None \<Rightarrow> (Error ''full'' 400, release_lock e d1 k)
               | Inr (Some found) \<Rightarrow> release_then_insert e d1 k u rq serial
                           (min_to_hhmm (minute_of_day (base_of e dp found)))
                           (strftime_seconds (base_of e dp found))))"
  unfolding locked_section_def Let_def case_prod_beta get_lock_reads ..

lemma book_service_unfold:
  assumes "precheck d rq = Inr svc"
  shows "book_service e d u rq =
     (if count_user_booked_on d u (rq_service_id rq) (effective_date_of e svc rq) > 0
      then (Error ''one_per_day'' 400, d)
      else if mpd_of svc > 0 \<and> count_booked_on d (rq_service_id rq) (effective_date_of e svc rq) \<ge> mpd_of svc
      then (Error ''full'' 400, d)
      else if \<not> is_ambulance svc \<and> outside_window svc (time_part_of e svc rq)
      then (Error ''outside_window'' 400, d)
      else locked_section e d u rq svc (date_part_of e svc rq) (time_part_of e svc rq))"
  by (simp add: book_service_def assms Let_def)

lemma book_appointment_unfold:
  assumes "appointment_precheck d rq = Inr (starts_at, ends_at, schedules)"
  shows "book_appointment e d u rq =
     (if filter (\<lambda>r. ap_patient_user_id r = u)
            (day_rows d (aq_doctor_user_id rq) (aq_hospital_user_id rq) (date_of starts_at)) \<noteq> []
      then (Error ''already_booked_same_day'' 400, d)
      else (let k = Appointments_lock (aq_doctor_user_id rq) (aq_hospital_user_id rq) (date_of starts_at);
                got_lock = fst (get_lock e d k);
                d1 = snd (get_lock e d k);
                day_count = int (length (day_rows d (aq_doctor_user_id rq) (aq_hospital_user_id rq) (date_of starts_at)))
            in if max_per_day_of schedules \<noteq> 0 \<and> day_count \<ge> max_per_day_of schedules
               then (Error ''capacity_full'' 400, release_if got_lock e d1 k)
               else (Booked (next_id (map ap_id (appointments d)))
                       (day_count + 1) (approx_time_of schedules starts_at ends_at (day_count + 1)) None,
                     release_if got_lock e (snd (insert_appointment d1 u rq (day_count + 1) (approx_time_of schedules starts_at ends_at (day_count + 1)))) k)))"
proof -
  have g: "(if mysql e then get_lock e d k else (False, d)) = get_lock e d k" for k
    by (simp add: get_lock_def)
  show ?thesis
    unfolding book_appointment_def assms g
    by (simp add: Let_def case_prod_beta get_lock_reads insert_appointment_def get_lock_frame)
qed

lemma appointment_precheck_Inr:
  assumes "appointment_precheck d rq = Inr (starts_at, ends_at, schedules)"
  shows "aq_starts_at rq = Some starts_at" "aq_ends_at rq = Some ends_at"
  using assms
  by (auto simp: appointment_precheck_def Let_def split: option.splits if_splits)

subsection \<open>What the locked section of \<open>book_service\<close> does\<close>

lemma find_slot_found:
  assumes "find_slot tp wstart wend step taken = Inr (Some found)"
  shows "\<exists>cm. found = min_to_hhmm cm"
proof -
  from assms obtain dm ws we where "nearest_slot dm ws we step taken = Some found"
    by (auto simp: find_slot_def Let_def split: sum.splits option.splits)
  then show ?thesis
    unfolding nearest_slot_find by auto
qed

lemma found_time:
  assumes "find_slot tp wstart wend step taken = Inr (Some found)"
  shows "\<exists>m. 0 \<le> m \<and> m < 1440 \<and> found = min_to_hhmm m
           \<and> base_of e dp found = (case base_day_of dp of Some day \<Rightarrow> at_minute day m | None \<Rightarrow> now e)"
proof -
  from find_slot_found[OF assms] obtain cm where c: "found = min_to_hhmm cm" by blast
  have "min_to_hhmm cm = min_to_hhmm (cm mod 1440)"
    by (simp add: min_to_hhmm_def)
  then show ?thesis
    using base_of_found[of e dp cm] c
    by (intro exI[of _ "cm mod 1440"]) (simp split: option.splits)
qed

lemma found_is_answered:
  assumes f: "find_slot tp wstart wend step taken = Inr (Some found)"
    and b: "base_day_of dp = Some day"
  shows "min_to_hhmm (minute_of_day (base_of e dp found)) = found"
    and "date_of (strftime_seconds (base_of e dp found)) = day"
    and "strftime_seconds (base_of e dp found) = base_of e dp found"
proof -
  from found_time[OF f, of e dp] obtain m where
    m: "0 \<le> m" "m < 1440" "found = min_to_hhmm m" "base_of e dp found = at_minute day m"
    by (auto simp: b)
  show "min_to_hhmm (minute_of_day (base_of e dp found)) = found"
    unfolding m(4) date_of_at_minute(2)[OF m(1,2)] by (simp add: m(3))
  show "date_of (strftime_seconds (base_of e dp found)) = day"
    unfolding m(4) date_of_at_minute(1)[OF m(1,2)] ..
  show "strftime_seconds (base_of e dp found) = base_of e dp found"
    unfolding m(4) date_of_at_minute(3)[OF m(1,2)] ..
qed





lemma locked_section_ambulance:
  assumes a: "is_ambulance svc"
  obtains (raised) exn where
      "service_bookings (snd (locked_section e d u rq svc dp tp)) = service_bookings d"
      "fst (locked_section e d u rq svc dp tp) = Raised exn"
      "clamp_desired (hhmm_to_min (desired_of tp (window_of (hs_window_start_time svc))))
         (wstart_min_of (window_of (hs_window_start_time svc)))
         (wend_min_of (window_of (hs_window_end_time svc))) = Inl exn"
    | (ins)
      "fst (locked_section e d u rq svc dp tp)
         = Booked (next_id (map sb_id (service_bookings d))) (count_booked_on d (rq_service_id rq) (section_date_of e rq dp) + 1)
             (Some (min_to_hhmm (minute_of_day (now e + 15 * usec_per_min))))
             (Some (strftime_seconds (now e + 15 * usec_per_min)))"
      "service_bookings (snd (locked_section e d u rq svc dp tp)) = service_bookings d @
         [new_service_booking (next_id (map sb_id (service_bookings d))) u rq
            (Some (strftime_seconds (now e + 15 * usec_per_min)))
            (count_booked_on d (rq_service_id rq) (section_date_of e rq dp) + 1)
            (Some (min_to_hhmm (minute_of_day (now e + 15 * usec_per_min))))]"
proof -
  let ?c = "clamp_desired (hhmm_to_min (desired_of tp (window_of (hs_window_start_time svc))))
         (wstart_min_of (window_of (hs_window_start_time svc)))
         (wend_min_of (window_of (hs_window_end_time svc)))"
  have f: "service_bookings (snd (get_lock e d k)) = service_bookings d" for k
    by (rule get_lock_frame)
  show thesis
  proof (cases ?c)
    case (Inl exn)
    show thesis
      by (rule raised[of exn]) (simp_all add: locked_section_unfold Let_def a Inl release_lock_frame f)
  next
    case (Inr x)
    show thesis
      by (rule ins) (simp_all add: locked_section_unfold Let_def a Inr release_then_insert_result[OF f])
  qed
qed


subsection \<open>The response and the rows of \<open>book_service\<close>\<close>

lemma precheck_Inl:
  assumes "precheck d rq = Inl err"
  shows "err = Error ''crisis_closed'' 400 \<or> err = Error ''missing_fields'' 400
         \<or> err = Error ''service_not_found'' 404 \<or> err = Error ''service_unavailable'' 400
         \<or> err = Error ''no_beds'' 400"
  using assms
  by (auto simp: precheck_def require_crisis_open_def split: option.splits if_splits)

lemma fst_locked_section:
  "fst (locked_section e d u rq svc dp tp) =
     (if is_ambulance svc
      then (case clamp_desired (hhmm_to_min (desired_of tp (window_of (hs_window_start_time svc))))
                  (wstart_min_of (window_of (hs_window_start_time svc)))
                  (wend_min_of (window_of (hs_window_end_time svc))) of
              Inl exn \<Rightarrow> Raised exn
            | Inr x \<Rightarrow>
                Booked (next_id (map sb_id (service_bookings d)))
                  (count_booked_on d (rq_service_id rq) (section_date_of e rq dp) + 1)
                  (Some (min_to_hhmm (minute_of_day (now e + 15 * usec_per_min))))
                  (Some (strftime_seconds (now e + 15 * usec_per_min))))
      else (case find_slot tp (window_of (hs_window_start_time svc))
                  (window_of (hs_window_end_time svc)) (step_of svc)
                  (taken_times_on d (rq_service_id rq) (section_date_of e rq dp)) of
              Inl exn \<Rightarrow> Raised exn
            | Inr None \<Rightarrow> Error ''full'' 400
            | Inr (Some found) \<Rightarrow>
                Booked (next_id (map sb_id (service_bookings d)))
                  (count_booked_on d (rq_service_id rq) (section_date_of e rq dp) + 1)
                  (Some (min_to_hhmm (minute_of_day (base_of e dp found))))
                  (Some (strftime_seconds (base_of e dp found)))))"
proof -
  have f: "service_bookings (snd (get_lock e d k)) = service_bookings d" for k
    by (rule get_lock_frame)
  show ?thesis
    by (simp add: locked_section_unfold Let_def release_then_insert_result(1)[OF f]
          split: sum.splits option.splits)
qed

lemma rows_locked_section:
  "service_bookings (snd (locked_section e d u rq svc dp tp)) =
     (case fst (locked_section e d u rq svc dp tp) of
        Booked bid serial approx sched \<Rightarrow>
          service_bookings d @ [new_service_booking bid u rq sched serial approx]
      | _ \<Rightarrow> service_bookings d)"
proof -
  have f: "service_bookings (snd (get_lock e d k)) = service_bookings d" for k
    by (rule get_lock_frame)
  show ?thesis
    by (simp add: locked_section_unfold Let_def release_then_insert_result[OF f] release_lock_frame f
          split: sum.splits option.splits)
qed

lemma fst_book_service:
  "fst (book_service e d u rq) =
     (case precheck d rq of
        Inl err \<Rightarrow> err
      | Inr svc \<Rightarrow>
          if 0 < count_user_booked_on d u (rq_service_id rq) (effective_date_of e svc rq)
          then Error ''one_per_day'' 400
          else if 0 < mpd_of svc
                  \<and> mpd_of svc \<le> count_booked_on d (rq_service_id rq) (effective_date_of e svc rq)
          then Error ''full'' 400
          else if \<not> is_ambulance svc \<and> outside_window svc (time_part_of e svc rq)
          then Error ''outside_window'' 400
          else fst (locked_section e d u rq svc (date_part_of e svc rq) (time_part_of e svc rq)))"
  by (simp add: book_service_def Let_def split: sum.splits)

lemma rows_book_service:
  "service_bookings (snd (book_service e d u rq)) =
     (case fst (book_service e d u rq) of
        Booked bid serial approx sched \<Rightarrow>
          service_bookings d @ [new_service_booking bid u rq sched serial approx]
      | _ \<Rightarrow> service_bookings d)"
proof (cases "precheck d rq")
  case (Inl err)
  from precheck_Inl[OF Inl] show ?thesis
    by (auto simp: book_service_def Inl)
next
  case (Inr svc)
  show ?thesis
    by (simp add: book_service_def Inr Let_def rows_locked_section)
qed

lemma book_service_Booked:
  assumes "fst (book_service e d u rq) = Booked bid serial approx sched"
  obtains svc where "precheck d rq = Inr svc"
    "count_user_booked_on d u (rq_service_id rq) (effective_date_of e svc rq) = 0"
    "\<not> (0 < mpd_of svc \<and> mpd_of svc \<le> count_booked_on d (rq_service_id rq) (effective_date_of e svc rq))"
    "fst (locked_section e d u rq svc (date_part_of e svc rq) (time_part_of e svc rq))
       = Booked bid serial approx sched"
proof -
  from assms obtain svc where p: "precheck d rq = Inr svc"
    by (cases "precheck d rq") (auto simp: fst_book_service dest: precheck_Inl)
  have c: "0 \<le> count_user_booked_on d u (rq_service_id rq) (effective_date_of e svc rq)"
    by (simp add: count_user_booked_on_def count_user_booked_def split: option.splits)
  from assms show thesis
    using c by (intro that[of svc]) (auto simp: fst_book_service p split: if_splits)
qed

subsection \<open>Claim C2: the nearest-slot search\<close>

text \<open>
  Claim C2 as stated: at equal distance the search prefers the later candidate. The
  loop takes \<open>d + i * step\<close> before \<open>d - i * step\<close>, and \<open>step\<close> is the service's
  \<open>duration_minutes\<close>, which \<open>add_hospital_service\<close> and \<open>update_hospital_service\<close> store
  as any integer: with a duration of \<open>-30\<close>, the desired time 10:00 taken, and both 09:30
  and 10:30 free inside the window 09:00 to 12:00, the search returns the earlier 09:30,
  and \<open>book_service\<close> books it.
\<close>

theorem nearest_slot_search_counterexample:
  "step_of ((ex_xray None)\<lparr>hs_duration_minutes := Some (- 30)\<rparr>) = - 30
   \<and> free_in_window 540 720 {''10:00''} 570 \<and> min_to_hhmm 570 = ''09:30''
   \<and> free_in_window 540 720 {''10:00''} 630 \<and> min_to_hhmm 630 = ''10:30''
   \<and> nearest_slot 600 540 720 (- 30) {''10:00''} = Some ''09:30''
   \<and> fst (book_service ex_env
          (ex_db ((ex_xray None)\<lparr>hs_duration_minutes := Some (- 30)\<rparr>)
             [ex_booking 1 4 (at_minute 20001 600) ''booked'' 1] [] Map.empty)
          7 (ex_request ''10:00''))
       = Booked 2 2 (Some ''09:30'') (Some (at_minute 20001 570))"
  by code_simp

text \<open>
  Claim C2, amended. The slot allocator of \<open>book_service\<close> clamps the desired time into
  the window (\<open>clamp_desired\<close> computes \<open>clamp\<close>, which lies in \<open>[ws, we]\<close> whenever
  \<open>ws \<le> we\<close>, and \<open>find_slot\<close> searches from the clamped time \<open>d\<close>); the two loops return
  the \<open>'HH:MM'\<close> of the first candidate, in the order \<open>d, d + step, d - step,
  d + 2*step, d - 2*step, ...\<close> of \<open>probe_order\<close>, that is inside the window and not
  taken; at a distance \<open>i * step\<close> the candidate \<open>d + i * step\<close> is taken before
  \<open>d - i * step\<close>, which is the later of the two when the step is positive (and the
  earlier when the service's duration is negative); the probes reach every candidate
  \<open>d + k * step\<close> inside the window, so that the search fails exactly when every such
  candidate is taken, and the handler then answers \<open>full\<close>; a slot returned is not taken
  and is the \<open>'HH:MM'\<close> of a probed minute inside the window, which \<open>hhmm_to_min\<close> reads
  back when the window lies within the day, and it is the \<open>approx_time\<close> of the booking
  when the handler can read the date of the request; a request that passes the checks
  before it is answered by this search. The search is a function of its
  five arguments (the loop's \<open>taken.add\<close> changes a local set after the result is fixed),
  so equal inputs give equal outputs.
\<close>

theorem nearest_slot_search:
  "clamp_desired (Some desired) (Some ws) (Some we) = Inr (Some (clamp desired ws we))
   \<and> (ws \<le> we \<longrightarrow> ws \<le> clamp desired ws we \<and> clamp desired ws we \<le> we)
   \<and> (\<forall>tp wstart wend.
         hhmm_to_min (desired_of tp wstart) = Some desired
         \<and> wstart_min_of wstart = Some ws \<and> wend_min_of wend = Some we
         \<longrightarrow> find_slot tp wstart wend step taken
               = Inr (nearest_slot (clamp desired ws we) ws we step taken))
   \<and> nearest_slot d ws we step taken
       = map_option min_to_hhmm
           (find (free_in_window ws we taken) (probe_order d step (max_iters_of ws we step)))
   \<and> (\<forall>i. 1 \<le> i \<and> i \<le> max_iters_of ws we step
           \<and> (\<forall>cm\<in>set (probe_order d step (i - 1)). \<not> free_in_window ws we taken cm)
           \<and> free_in_window ws we taken (d + i * step)
         \<longrightarrow> nearest_slot d ws we step taken = Some (min_to_hhmm (d + i * step)))
   \<and> (\<forall>i. 0 < step \<and> 1 \<le> i \<longrightarrow> d - i * step < d + i * step)
   \<and> (nearest_slot d ws we step taken = None \<longleftrightarrow>
         (\<forall>cm\<in>set (probe_order d step (max_iters_of ws we step)).
            ws \<le> cm \<and> cm \<le> we \<longrightarrow> min_to_hhmm cm \<in> taken))
   \<and> (ws \<le> d \<and> d \<le> we \<longrightarrow>
         (nearest_slot d ws we step taken = None \<longleftrightarrow>
            (\<forall>k. ws \<le> d + k * step \<and> d + k * step \<le> we \<longrightarrow> min_to_hhmm (d + k * step) \<in> taken)))
   \<and> (\<forall>s. nearest_slot d ws we step taken = Some s \<longrightarrow>
         s \<notin> taken \<and>
         (\<exists>cm\<in>set (probe_order d step (max_iters_of ws we step)).
            ws \<le> cm \<and> cm \<le> we \<and> s = min_to_hhmm cm
            \<and> (0 \<le> ws \<and> we < 24 * 60 \<longrightarrow> hhmm_to_min s = Some cm)))
   \<and> (\<not> is_ambulance svc \<longrightarrow>
         fst (locked_section e db u rq svc dp tp) =
           (case find_slot tp (window_of (hs_window_start_time svc))
                   (window_of (hs_window_end_time svc)) (step_of svc)
                   (taken_times_on db (rq_service_id rq) (section_date_of e rq dp)) of
              Inl exn \<Rightarrow> Raised exn
            | Inr None \<Rightarrow> Error ''full'' 400
            | Inr (Some found) \<Rightarrow>
                Booked (next_id (map sb_id (service_bookings db)))
                  (count_booked_on db (rq_service_id rq) (section_date_of e rq dp) + 1)
                  (Some (min_to_hhmm (minute_of_day (base_of e dp found))))
                  (Some (strftime_seconds (base_of e dp found)))))
   \<and> (\<forall>tp' wstart wend found day.
         find_slot tp' wstart wend step taken = Inr (Some found) \<and> base_day_of dp = Some day
         \<longrightarrow> min_to_hhmm (minute_of_day (base_of e dp found)) = found
             \<and> date_of (strftime_seconds (base_of e dp found)) = day)
   \<and> (precheck db rq = Inr svc \<and> \<not> is_ambulance svc
      \<and> count_user_booked_on db u (rq_service_id rq) (effective_date_of e svc rq) = 0
      \<and> \<not> (0 < mpd_of svc
            \<and> mpd_of svc \<le> count_booked_on db (rq_service_id rq) (effective_date_of e svc rq))
      \<and> \<not> outside_window svc (time_part_of e svc rq)
     \<longrightarrow> fst (book_service e db u rq)
           = fst (locked_section e db u rq svc (date_part_of e svc rq) (time_part_of e svc rq)))"
proof (intro conjI)
  show "clamp_desired (Some desired) (Some ws) (Some we) = Inr (Some (clamp desired ws we))"
    by (rule clamp_desired_clamp)
  show "ws \<le> we \<longrightarrow> ws \<le> clamp desired ws we \<and> clamp desired ws we \<le> we"
    by (simp add: clamp_def Let_def)
  show "\<forall>tp wstart wend.
         hhmm_to_min (desired_of tp wstart) = Some desired
         \<and> wstart_min_of wstart = Some ws \<and> wend_min_of wend = Some we
         \<longrightarrow> find_slot tp wstart wend step taken
               = Inr (nearest_slot (clamp desired ws we) ws we step taken)"
    by (intro allI impI) (simp add: find_slot_nearest)
  show "nearest_slot d ws we step taken
       = map_option min_to_hhmm
           (find (free_in_window ws we taken) (probe_order d step (max_iters_of ws we step)))"
    by (rule nearest_slot_find)
  show "\<forall>i. 1 \<le> i \<and> i \<le> max_iters_of ws we step
           \<and> (\<forall>cm\<in>set (probe_order d step (i - 1)). \<not> free_in_window ws we taken cm)
           \<and> free_in_window ws we taken (d + i * step)
         \<longrightarrow> nearest_slot d ws we step taken = Some (min_to_hhmm (d + i * step))"
    by (intro allI impI) (rule later_preferred, simp_all)
  show "\<forall>i. 0 < step \<and> 1 \<le> i \<longrightarrow> d - i * step < d + i * step"
  proof (intro allI impI)
    fix i :: int assume "0 < step \<and> 1 \<le> i"
    then have "0 < i * step" by simp
    then show "d - i * step < d + i * step" by simp
  qed
  show "nearest_slot d ws we step taken = None \<longleftrightarrow>
         (\<forall>cm\<in>set (probe_order d step (max_iters_of ws we step)).
            ws \<le> cm \<and> cm \<le> we \<longrightarrow> min_to_hhmm cm \<in> taken)"
    by (rule nearest_slot_None)
  show "ws \<le> d \<and> d \<le> we \<longrightarrow>
         (nearest_slot d ws we step taken = None \<longleftrightarrow>
            (\<forall>k. ws \<le> d + k * step \<and> d + k * step \<le> we \<longrightarrow> min_to_hhmm (d + k * step) \<in> taken))"
    using search_complete by blast
  show "\<forall>s. nearest_slot d ws we step taken = Some s \<longrightarrow>
         s \<notin> taken \<and>
         (\<exists>cm\<in>set (probe_order d step (max_iters_of ws we step)).
            ws \<le> cm \<and> cm \<le> we \<and> s = min_to_hhmm cm
            \<and> (0 \<le> ws \<and> we < 24 * 60 \<longrightarrow> hhmm_to_min s = Some cm))"
    by (intro allI impI) (rule nearest_slot_Some)
  show "\<not> is_ambulance svc \<longrightarrow>
         fst (locked_section e db u rq svc dp tp) =
           (case find_slot tp (window_of (hs_window_start_time svc))
                   (window_of (hs_window_end_time svc)) (step_of svc)
                   (taken_times_on db (rq_service_id rq) (section_date_of e rq dp)) of
              Inl exn \<Rightarrow> Raised exn
            | Inr None \<Rightarrow> Error ''full'' 400
            | Inr (Some found) \<Rightarrow>
                Booked (next_id (map sb_id (service_bookings db)))
                  (count_booked_on db (rq_service_id rq) (section_date_of e rq dp) + 1)
                  (Some (min_to_hhmm (minute_of_day (base_of e dp found))))
                  (Some (strftime_seconds (base_of e dp found))))"
    by (simp add: fst_locked_section)
  show "\<forall>tp' wstart wend found day.
         find_slot tp' wstart wend step taken = Inr (Some found) \<and> base_day_of dp = Some day
         \<longrightarrow> min_to_hhmm (minute_of_day (base_of e dp found)) = found
             \<and> date_of (strftime_seconds (base_of e dp found)) = day"
    using found_is_answered(1,2) by blast
  show "precheck db rq = Inr svc \<and> \<not> is_ambulance svc
      \<and> count_user_booked_on db u (rq_service_id rq) (effective_date_of e svc rq) = 0
      \<and> \<not> (0 < mpd_of svc
            \<and> mpd_of svc \<le> count_booked_on db (rq_service_id rq) (effective_date_of e svc rq))
      \<and> \<not> outside_window svc (time_part_of e svc rq)
     \<longrightarrow> fst (book_service e db u rq)
           = fst (locked_section e db u rq svc (date_part_of e svc rq) (time_part_of e svc rq))"
    by (simp add: fst_book_service)
qed

text \<open>
  Service 1, open 09:00 to 12:00 in steps of 30 minutes, with 09:00 and 09:30 booked
  on the day: the request for 09:00 is given 10:00. With the window closed at 10:00
  and 10:00 booked as well, the search fails and the request is answered \<open>full\<close>.
\<close>

theorem nearest_slot_search_witness:
  "(540 :: int) \<le> 720
   \<and> clamp 540 540 720 = 540
   \<and> hhmm_to_min (desired_of (Some ''09:00'') (Some ''09:00'')) = Some 540
   \<and> wstart_min_of (Some ''09:00'') = Some 540 \<and> wend_min_of (Some ''12:00'') = Some 720
   \<and> (1 :: int) \<le> 2 \<and> 2 \<le> max_iters_of 540 720 30
   \<and> probe_order 540 30 (2 - 1) = [540, 570, 510]
   \<and> \<not> free_in_window 540 720 {''09:00'', ''09:30''} 540
   \<and> \<not> free_in_window 540 720 {''09:00'', ''09:30''} 570
   \<and> \<not> free_in_window 540 720 {''09:00'', ''09:30''} 510
   \<and> free_in_window 540 720 {''09:00'', ''09:30''} (540 + 2 * 30)
   \<and> nearest_slot 540 540 720 30 {''09:00'', ''09:30''} = Some ''10:00''
   \<and> find_slot (Some ''09:00'') (Some ''09:00'') (Some ''12:00'') 30 {''09:00'', ''09:30''}
       = Inr (Some ''10:00'')
   \<and> (540 :: int) - 2 * 30 < 540 + 2 * 30
   \<and> ''10:00'' \<notin> {''09:00'', ''09:30''}
   \<and> \<not> is_ambulance (ex_xray None)
   \<and> fst (locked_section ex_env
          (ex_db (ex_xray None)
             [ex_booking 1 4 (at_minute 20001 540) ''booked'' 1,
              ex_booking 2 5 (at_minute 20001 570) ''booked'' 2] [] Map.empty)
          7 (ex_request ''09:00'') (ex_xray None) (Some (Slice ''2024-10-05'')) (Some ''09:00''))
       = Booked 3 3 (Some ''10:00'') (Some (at_minute 20001 600))
   \<and> date_part_of ex_env (ex_xray None) (ex_request ''09:00'') = Some (Slice ''2024-10-05'')
   \<and> time_part_of ex_env (ex_xray None) (ex_request ''09:00'') = Some ''09:00''
   \<and> \<not> outside_window (ex_xray None) (Some ''09:00'')
   \<and> fst (book_service ex_env
          (ex_db (ex_xray None)
             [ex_booking 1 4 (at_minute 20001 540) ''booked'' 1,
              ex_booking 2 5 (at_minute 20001 570) ''booked'' 2] [] Map.empty)
          7 (ex_request ''09:00''))
       = Booked 3 3 (Some ''10:00'') (Some (at_minute 20001 600))
   \<and> probe_order 540 30 (max_iters_of 540 600 30) = [540, 570, 510, 600, 480]
   \<and> nearest_slot 540 540 600 30 {''09:00'', ''09:30'', ''10:00''} = None
   \<and> min_to_hhmm (540 + 2 * 30) \<in> {''09:00'', ''09:30'', ''10:00''}
   \<and> fst (locked_section ex_env
          (ex_db ((ex_xray None)\<lparr>hs_window_end_time := Some ''10:00:00''\<rparr>)
             [ex_booking 1 4 (at_minute 20001 540) ''booked'' 1,
              ex_booking 2 5 (at_minute 20001 570) ''booked'' 2,
              ex_booking 3 6 (at_minute 20001 600) ''booked'' 3] [] Map.empty)
          7 (ex_request ''09:00'') ((ex_xray None)\<lparr>hs_window_end_time := Some ''10:00:00''\<rparr>)
          (Some (Slice ''2024-10-05'')) (Some ''09:00''))
       = Error ''full'' 400
   \<and> fst (book_service ex_env
          (ex_db ((ex_xray None)\<lparr>hs_window_end_time := Some ''10:00:00''\<rparr>)
             [ex_booking 1 4 (at_minute 20001 540) ''booked'' 1,
              ex_booking 2 5 (at_minute 20001 570) ''booked'' 2,
              ex_booking 3 6 (at_minute 20001 600) ''booked'' 3] [] Map.empty)
          7 (ex_request ''09:00''))
       = Error ''full'' 400"
proof -
  let ?T = "{''09:00'', ''09:30''}"
  let ?F = "{''09:00'', ''09:30'', ''10:00''}"
  let ?db = "ex_db (ex_xray None)
             [ex_booking 1 4 (at_minute 20001 540) ''booked'' 1,
              ex_booking 2 5 (at_minute 20001 570) ''booked'' 2] [] Map.empty"
  let ?short = "(ex_xray None)\<lparr>hs_window_end_time := Some ''10:00:00''\<rparr>"
  let ?full = "ex_db ?short
             [ex_booking 1 4 (at_minute 20001 540) ''booked'' 1,
              ex_booking 2 5 (at_minute 20001 570) ''booked'' 2,
              ex_booking 3 6 (at_minute 20001 600) ''booked'' 3] [] Map.empty"
  let ?dp = "Some (Slice ''2024-10-05'')"
  note t = nearest_slot_search [where desired = 540 and ws = 540 and we = 720 and step = 30
             and taken = ?T and d = 540 and e = ex_env and db = ?db and u = 7
             and rq = "ex_request ''09:00''" and svc = "ex_xray None" and dp = ?dp
             and tp = "Some ''09:00''"]
  note n = nearest_slot_search [where desired = 540 and ws = 540 and we = 600 and step = 30
             and taken = ?F and d = 540 and e = ex_env and db = ?full and u = 7
             and rq = "ex_request ''09:00''" and svc = ?short and dp = ?dp
             and tp = "Some ''09:00''"]
  note t_find = t [THEN conjunct2, THEN conjunct2, THEN conjunct1, rule_format]
  note t_later = t [THEN conjunct2, THEN conjunct2, THEN conjunct2, THEN conjunct2,
                    THEN conjunct1, rule_format]
  note t_order = t [THEN conjunct2, THEN conjunct2, THEN conjunct2, THEN conjunct2,
                    THEN conjunct2, THEN conjunct1, rule_format]
  note t_some = t [THEN conjunct2, THEN conjunct2, THEN conjunct2, THEN conjunct2,
                   THEN conjunct2, THEN conjunct2, THEN conjunct2, THEN conjunct2,
                   THEN conjunct1, rule_format]
  note t_fst = t [THEN conjunct2, THEN conjunct2, THEN conjunct2, THEN conjunct2,
                  THEN conjunct2, THEN conjunct2, THEN conjunct2, THEN conjunct2,
                  THEN conjunct2, THEN conjunct1, rule_format]
  note t_ans = t [THEN conjunct2, THEN conjunct2, THEN conjunct2, THEN conjunct2,
                  THEN conjunct2, THEN conjunct2, THEN conjunct2, THEN conjunct2,
                  THEN conjunct2, THEN conjunct2, THEN conjunct1, rule_format]
  note t_book = t [THEN conjunct2, THEN conjunct2, THEN conjunct2, THEN conjunct2,
                   THEN conjunct2, THEN conjunct2, THEN conjunct2, THEN conjunct2,
                   THEN conjunct2, THEN conjunct2, THEN conjunct2, rule_format]
  note n_book = n [THEN conjunct2, THEN conjunct2, THEN conjunct2, THEN conjunct2,
                   THEN conjunct2, THEN conjunct2, THEN conjunct2, THEN conjunct2,
                   THEN conjunct2, THEN conjunct2, THEN conjunct2, rule_format]
  note n_find = n [THEN conjunct2, THEN conjunct2, THEN conjunct1, rule_format]
  note n_none = n [THEN conjunct2, THEN conjunct2, THEN conjunct2, THEN conjunct2,
                   THEN conjunct2, THEN conjunct2, THEN conjunct1]
  note n_cover = n [THEN conjunct2, THEN conjunct2, THEN conjunct2, THEN conjunct2,
                    THEN conjunct2, THEN conjunct2, THEN conjunct2, THEN conjunct1]
  note n_fst = n [THEN conjunct2, THEN conjunct2, THEN conjunct2, THEN conjunct2,
                  THEN conjunct2, THEN conjunct2, THEN conjunct2, THEN conjunct2,
                  THEN conjunct2, THEN conjunct1, rule_format]
  have c1: "(540 :: int) \<le> 720" by simp
  have c2: "clamp 540 540 720 = 540" by code_simp
  have c2': "clamp 540 540 600 = 540" by code_simp
  have c3: "hhmm_to_min (desired_of (Some ''09:00'') (Some ''09:00'')) = Some 540" by code_simp
  have c4: "wstart_min_of (Some ''09:00'') = Some 540" by code_simp
  have c5: "wend_min_of (Some ''12:00'') = Some 720" by code_simp
  have c5': "wend_min_of (Some ''10:00'') = Some 600" by code_simp
  have c7: "(1 :: int) \<le> 2" by simp
  have c8: "2 \<le> max_iters_of 540 720 30" by code_simp
  have c9a: "probe_order 540 30 (2 - 1) = [540, 570, 510]" by code_simp
  have c9b: "\<not> free_in_window 540 720 ?T 540" by code_simp
  have c9c: "\<not> free_in_window 540 720 ?T 570" by code_simp
  have c9d: "\<not> free_in_window 540 720 ?T 510" by code_simp
  have c9: "\<forall>cm\<in>set (probe_order 540 30 (2 - 1)). \<not> free_in_window 540 720 ?T cm"
    unfolding c9a using c9b c9c c9d by simp
  have c10: "free_in_window 540 720 ?T (540 + 2 * 30)" by code_simp
  have m: "min_to_hhmm (540 + 2 * 30) = ''10:00''" by code_simp
  have c11: "nearest_slot 540 540 720 30 ?T = Some ''10:00''"
    using t_later [of 2] c8 c9 c10 m by simp
  have c6: "find_slot (Some ''09:00'') (Some ''09:00'') (Some ''12:00'') 30 ?T = Inr (Some ''10:00'')"
    using t_find [of "Some ''09:00''" "Some ''09:00''" "Some ''12:00''"] c3 c4 c5 c2 c11 by simp
  have c12: "(540 :: int) - 2 * 30 < 540 + 2 * 30"
    using t_order [of 2] by simp
  have c13: "''10:00'' \<notin> ?T" using t_some [OF c11] by (rule conjunct1)
  have a1: "\<not> is_ambulance (ex_xray None)" by code_simp
  have a2: "\<not> is_ambulance ?short" by code_simp
  have w: "window_of (hs_window_start_time (ex_xray None)) = Some ''09:00''"
      "window_of (hs_window_end_time (ex_xray None)) = Some ''12:00''"
      "step_of (ex_xray None) = 30"
      "taken_times_on ?db (rq_service_id (ex_request ''09:00''))
         (section_date_of ex_env (ex_request ''09:00'') ?dp) = ?T"
      "next_id (map sb_id (service_bookings ?db)) = 3"
      "count_booked_on ?db (rq_service_id (ex_request ''09:00''))
         (section_date_of ex_env (ex_request ''09:00'') ?dp) + 1 = 3"
    by code_simp+
  have bd: "base_day_of ?dp = Some 20001" by code_simp
  note ans = t_ans [OF conjI [OF c6 bd]]
  have st: "strftime_seconds (base_of ex_env ?dp ''10:00'') = at_minute 20001 600" by code_simp
  have c14: "fst (locked_section ex_env ?db 7 (ex_request ''09:00'') (ex_xray None) ?dp (Some ''09:00''))
       = Booked 3 3 (Some ''10:00'') (Some (at_minute 20001 600))"
    unfolding t_fst [OF a1] w c6 using ans [THEN conjunct1] st by simp
  have p: "probe_order 540 30 (max_iters_of 540 600 30) = [540, 570, 510, 600, 480]" by code_simp
  have q: "\<forall>cm\<in>set (probe_order 540 30 (max_iters_of 540 600 30)).
             540 \<le> cm \<and> cm \<le> 600 \<longrightarrow> min_to_hhmm cm \<in> ?F"
    unfolding p by code_simp
  have c15: "nearest_slot 540 540 600 30 ?F = None"
    using n_none q by simp
  have le: "(540 :: int) \<le> 540" "(540 :: int) \<le> 600" "(540 :: int) \<le> 540 + 2 * 30"
      "(540 :: int) + 2 * 30 \<le> 600"
    by simp_all
  note c16 = n_cover [THEN mp, OF conjI [OF le(1) le(2)], THEN iffD1, OF c15, THEN spec, of 2,
                      THEN mp, OF conjI [OF le(3) le(4)]]
  have f: "find_slot (Some ''09:00'') (Some ''09:00'') (Some ''10:00'') 30 ?F = Inr None"
    using n_find [of "Some ''09:00''" "Some ''09:00''" "Some ''10:00''"] c3 c4 c5' c2' c15 by simp
  have w': "window_of (hs_window_start_time ?short) = Some ''09:00''"
      "window_of (hs_window_end_time ?short) = Some ''10:00''"
      "step_of ?short = 30"
      "taken_times_on ?full (rq_service_id (ex_request ''09:00''))
         (section_date_of ex_env (ex_request ''09:00'') ?dp) = ?F"
    by code_simp+
  have c17: "fst (locked_section ex_env ?full 7 (ex_request ''09:00'') ?short ?dp (Some ''09:00''))
       = Error ''full'' 400"
    unfolding n_fst [OF a2] w' f by simp
  have r: "date_part_of ex_env (ex_xray None) (ex_request ''09:00'') = ?dp"
      "time_part_of ex_env (ex_xray None) (ex_request ''09:00'') = Some ''09:00''"
      "date_part_of ex_env ?short (ex_request ''09:00'') = ?dp"
      "time_part_of ex_env ?short (ex_request ''09:00'') = Some ''09:00''"
    by code_simp+
  have o: "\<not> outside_window (ex_xray None) (Some ''09:00'')"
      "\<not> outside_window ?short (Some ''09:00'')"
    by code_simp+
  have b1: "precheck ?db (ex_request ''09:00'') = Inr (ex_xray None)" by code_simp
  have b2: "count_user_booked_on ?db 7 (rq_service_id (ex_request ''09:00''))
              (effective_date_of ex_env (ex_xray None) (ex_request ''09:00'')) = 0"
    by code_simp
  have b3: "\<not> (0 < mpd_of (ex_xray None)
            \<and> mpd_of (ex_xray None)
               \<le> count_booked_on ?db (rq_service_id (ex_request ''09:00''))
                    (effective_date_of ex_env (ex_xray None) (ex_request ''09:00'')))"
    by code_simp
  have b4: "\<not> outside_window (ex_xray None) (time_part_of ex_env (ex_xray None) (ex_request ''09:00''))"
    unfolding r by (rule o(1))
  have e1: "precheck ?full (ex_request ''09:00'') = Inr ?short" by code_simp
  have e2: "count_user_booked_on ?full 7 (rq_service_id (ex_request ''09:00''))
              (effective_date_of ex_env ?short (ex_request ''09:00'')) = 0"
    by code_simp
  have e3: "\<not> (0 < mpd_of ?short
            \<and> mpd_of ?short
               \<le> count_booked_on ?full (rq_service_id (ex_request ''09:00''))
                    (effective_date_of ex_env ?short (ex_request ''09:00'')))"
    by code_simp
  have e4: "\<not> outside_window ?short (time_part_of ex_env ?short (ex_request ''09:00''))"
    unfolding r by (rule o(2))
  note c18 = t_book [OF conjI [OF b1 conjI [OF a1 conjI [OF b2 conjI [OF b3 b4]]]],
                     unfolded r c14]
  note c19 = n_book [OF conjI [OF e1 conjI [OF a2 conjI [OF e2 conjI [OF e3 e4]]]],
                     unfolded r c17]
  show ?thesis
    by (intro conjI)
       (fact c1 c2 c3 c4 c5 c7 c8 c9a c9b c9c c9d c10 c11 c6 c12 c13 a1 c14 r(1) r(2) o(1) c18
             p c15 c16 c17 c19)+
qed

subsection \<open>Claim C3: the concrete case of the search\<close>

text \<open>
  Claim C3 as stated: for the window 09:00 to 12:00, step 30 minutes, the taken set
  \<open>{09:00, 09:30, 10:00}\<close> and the desired time 09:15, the search allocates 10:30.
  It does not: the first candidate probed is the desired time itself, 09:15, which is
  inside the window and not taken.
\<close>

theorem nearest_slot_example_counterexample:
  "find_slot (Some ''09:15'') (Some ''09:00'') (Some ''12:00'') 30
     {''09:00'', ''09:30'', ''10:00''} \<noteq> Inr (Some ''10:30'')"
  by code_simp

text \<open>
  Claim C3, amended. For the window 09:00 to 12:00, step 30 minutes, the taken set
  \<open>{09:00, 09:30, 10:00}\<close> and the desired time 09:15, the search allocates exactly
  the slot 09:15; and \<open>book_service\<close>, on a database where the three taken times are
  the booked rows of the service on the requested day, answers with \<open>approx_time\<close>
  09:15, serial 4 and \<open>scheduled_at\<close> 09:15 of that day.
\<close>

theorem nearest_slot_example:
  "find_slot (Some ''09:15'') (Some ''09:00'') (Some ''12:00'') 30
     {''09:00'', ''09:30'', ''10:00''} = Inr (Some ''09:15'')
   \<and> fst (book_service ex_env
          (ex_db (ex_xray None)
             [ex_booking 1 4 (at_minute 20001 540) ''booked'' 1,
              ex_booking 2 5 (at_minute 20001 570) ''booked'' 2,
              ex_booking 3 6 (at_minute 20001 600) ''booked'' 3] [] Map.empty)
          7 (ex_request ''09:15''))
       = Booked 4 4 (Some ''09:15'') (Some (at_minute 20001 555))"
  by code_simp
subsection \<open>Capacity: rejected when full, never exceeded\<close>









lemma book_appointment_rows:
  assumes p: "appointment_precheck d rq = Inr (starts_at, ends_at, schedules)"
  shows "appointments (snd (book_appointment e d u rq)) =
     (case fst (book_appointment e d u rq) of
        Booked appt_id serial approx x \<Rightarrow> appointments d @ [new_appointment appt_id u rq serial approx]
      | _ \<Rightarrow> appointments d)"
  by (simp add: book_appointment_unfold[OF p] Let_def get_lock_frame release_if_frame
        insert_appointment_def)

lemma book_appointment_Booked:
  assumes p: "appointment_precheck d rq = Inr (starts_at, ends_at, schedules)"
    and b: "fst (book_appointment e d u rq) = Booked appt_id serial approx x"
  shows "serial = int (length (day_rows d (aq_doctor_user_id rq) (aq_hospital_user_id rq) (date_of starts_at))) + 1"
    and "appt_id = next_id (map ap_id (appointments d))"
    and "approx = approx_time_of schedules starts_at ends_at serial"
    and "filter (\<lambda>r. ap_patient_user_id r = u) (day_rows d (aq_doctor_user_id rq) (aq_hospital_user_id rq) (date_of starts_at)) = []"
    and "\<not> (max_per_day_of schedules \<noteq> 0 \<and> max_per_day_of schedules \<le> int (length (day_rows d (aq_doctor_user_id rq) (aq_hospital_user_id rq) (date_of starts_at))))"
    and "appointments (snd (book_appointment e d u rq)) = appointments d @ [new_appointment appt_id u rq serial approx]"
proof -
  note u = b[unfolded book_appointment_unfold[OF p] Let_def]
  show "serial = int (length (day_rows d (aq_doctor_user_id rq) (aq_hospital_user_id rq) (date_of starts_at))) + 1"
    and "appt_id = next_id (map ap_id (appointments d))"
    and "approx = approx_time_of schedules starts_at ends_at serial"
    and "filter (\<lambda>r. ap_patient_user_id r = u) (day_rows d (aq_doctor_user_id rq) (aq_hospital_user_id rq) (date_of starts_at)) = []"
    and "\<not> (max_per_day_of schedules \<noteq> 0 \<and> max_per_day_of schedules \<le> int (length (day_rows d (aq_doctor_user_id rq) (aq_hospital_user_id rq) (date_of starts_at))))"
    using u by (auto split: if_splits)
  show "appointments (snd (book_appointment e d u rq)) = appointments d @ [new_appointment appt_id u rq serial approx]"
    by (simp add: book_appointment_rows[OF p] b)
qed

lemma day_rows_append:
  "appointments d' = appointments d @ [r] \<Longrightarrow>
   day_rows d' a b day = day_rows d a b day @
     (if ap_doctor_user_id r = a \<and> ap_hospital_user_id r = b \<and> between_day (ap_starts_at r) day then [r] else [])"
  by (simp add: day_rows_def)



subsection \<open>Claim C1: the capacity limit\<close>




text \<open>
  What the amended claim leaves out. A \<open>scheduled_at\<close> that the database cannot read as
  a date is checked against no day at all, and the booking is saved on 1970-01-01 when
  the text is too short to have a \<open>date_part\<close>, and at the clock when \<open>datetime\<close> refuses
  the date: with a limit of one a day, two requests for \<open>'tomorrow'\<close> are both booked on
  day 0, and a request for \<open>'2024-02-30 09:15'\<close> is booked today at the time of the clock.
\<close>

lemma undated_requests_pass:
  "effective_date_of ex_env (ex_xray (Some 1)) (ex_request_at (JStr ''tomorrow'')) = None
   \<and> fst (book_service ex_env (ex_db (ex_xray (Some 1)) [] [] Map.empty) 7
          (ex_request_at (JStr ''tomorrow'')))
       = Booked 1 1 (Some ''09:00'') (Some (at_minute 0 540))
   \<and> fst (book_service ex_env
          (snd (book_service ex_env (ex_db (ex_xray (Some 1)) [] [] Map.empty) 7
                  (ex_request_at (JStr ''tomorrow''))))
          8 (ex_request_at (JStr ''tomorrow'')))
       = Booked 2 1 (Some ''09:00'') (Some (at_minute 0 540))
   \<and> count_booked
         (snd (book_service ex_env
            (snd (book_service ex_env (ex_db (ex_xray (Some 1)) [] [] Map.empty) 7
                    (ex_request_at (JStr ''tomorrow''))))
            8 (ex_request_at (JStr ''tomorrow''))))
         1 0 = 2
   \<and> fst (book_service ex_env (ex_db (ex_xray (Some 1)) [] [] Map.empty) 7
          (ex_request_at (JStr ''2024-02-30 09:15'')))
       = Booked 1 1 (Some ''08:00'') (Some (at_minute 20001 480))"
  by code_simp
subsection \<open>Claim C5: one booking per requester, provider and day\<close>










subsection \<open>Claim C6: the serial\<close>

text \<open>
  The serial of a booking: one more than the number of rows of the service with status
  \<open>booked\<close> on the day that the database reads from \<open>date_part\<close> (or from \<open>scheduled_at\<close>
  when there is no \<open>date_part\<close>), read by a query of its own after the lock is requested.
\<close>

lemma service_serial:
  assumes p: "precheck d rq = Inr svc"
    and b: "fst (book_service e d u rq) = Booked bid serial approx sched"
  shows "serial = count_booked_on d (rq_service_id rq)
                    (section_date_of e rq (date_part_of e svc rq)) + 1"
    and "bid = next_id (map sb_id (service_bookings d))"
    and "service_bookings (snd (book_service e d u rq))
           = service_bookings d @ [new_service_booking bid u rq sched serial approx]"
proof -
  from b obtain svc' where "precheck d rq = Inr svc'"
     and l': "fst (locked_section e d u rq svc' (date_part_of e svc' rq) (time_part_of e svc' rq))
           = Booked bid serial approx sched"
    by (rule book_service_Booked)
  with p have l: "fst (locked_section e d u rq svc (date_part_of e svc rq) (time_part_of e svc rq))
           = Booked bid serial approx sched"
    by simp
  from l show "serial = count_booked_on d (rq_service_id rq)
                    (section_date_of e rq (date_part_of e svc rq)) + 1"
    and "bid = next_id (map sb_id (service_bookings d))"
    by (auto simp: fst_locked_section split: if_splits sum.splits option.splits)
  show "service_bookings (snd (book_service e d u rq))
           = service_bookings d @ [new_service_booking bid u rq sched serial approx]"
    by (simp add: rows_book_service b)
qed

lemma appointment_serial:
  assumes p: "appointment_precheck d aq = Inr (starts_at, ends_at, schedules)"
    and b: "fst (book_appointment e d u aq) = Booked appt_id serial approx x"
  shows "serial = int (length (day_rows d (aq_doctor_user_id aq) (aq_hospital_user_id aq) (date_of starts_at))) + 1"
    and "appointments (snd (book_appointment e d u aq)) = appointments d @ [new_appointment appt_id u aq serial approx]"
    and "between_day (Some starts_at) (date_of starts_at) \<Longrightarrow>
           map ap_serial (day_rows (snd (book_appointment e d u aq)) (aq_doctor_user_id aq) (aq_hospital_user_id aq) (date_of starts_at))
           = map ap_serial (day_rows d (aq_doctor_user_id aq) (aq_hospital_user_id aq) (date_of starts_at))
             @ [int (length (day_rows d (aq_doctor_user_id aq) (aq_hospital_user_id aq) (date_of starts_at))) + 1]"
proof -
  note f = book_appointment_Booked[OF p b]
  show s: "serial = int (length (day_rows d (aq_doctor_user_id aq) (aq_hospital_user_id aq) (date_of starts_at))) + 1"
    by (rule f(1))
  show r: "appointments (snd (book_appointment e d u aq)) = appointments d @ [new_appointment appt_id u aq serial approx]"
    by (rule f(6))
  assume "between_day (Some starts_at) (date_of starts_at)"
  then show "map ap_serial (day_rows (snd (book_appointment e d u aq)) (aq_doctor_user_id aq) (aq_hospital_user_id aq) (date_of starts_at))
           = map ap_serial (day_rows d (aq_doctor_user_id aq) (aq_hospital_user_id aq) (date_of starts_at))
             @ [int (length (day_rows d (aq_doctor_user_id aq) (aq_hospital_user_id aq) (date_of starts_at))) + 1]"
    unfolding day_rows_append[OF r]
    by (simp add: new_appointment_def appointment_precheck_Inr(1)[OF p] s)
qed

text \<open>
  Claim C6: every successful allocation assigns the serial \<open>CountActive + 1\<close>, so that
  the serials of the bookings created for a provider and day are \<open>1, 2, 3, ...\<close> without
  gaps and without duplicates.

  \<open>book_appointment\<close> does so: its serial counts the appointments of the day in any
  status, so that no serial comes twice. \<open>book_service\<close> means to (its comment reads "Day
  serial is unique per service-date") and does not: the count behind its serial asks
  for \<open>status='booked'\<close>, so that once the first booking of the day is confirmed the
  next one is given the serial 1 again, where \<open>CountActive + 1\<close> is 2. Service 1 with
  one confirmed booking on day 20001, serial 1, and an appointment of doctor 3 on that
  day, cancelled, serial 1: the booking of user 8 is given the serial 1, and the
  appointment of user 8 the serial 2.
\<close>

theorem serial_repeated_after_confirmation:
  "map sb_status (service_bookings ex_confirmed_db) = [''confirmed'']
   \<and> map sb_serial (service_bookings ex_confirmed_db) = [1]
   \<and> spec_count_active_service ex_confirmed_db 1 20001 + 1 = 2
   \<and> fst (book_service ex_env ex_confirmed_db 8 (ex_request ''09:15''))
       = Booked 2 1 (Some ''09:15'') (Some (at_minute 20001 555))
   \<and> map sb_serial (service_bookings (snd (book_service ex_env ex_confirmed_db 8 (ex_request ''09:15''))))
       = [1, 1]
   \<and> map (\<lambda>r. map_option date_of (sb_scheduled_at r))
         (service_bookings (snd (book_service ex_env ex_confirmed_db 8 (ex_request ''09:15''))))
       = [Some 20001, Some 20001]
   \<and> map ap_status (appointments ex_confirmed_db) = [''cancelled'']
   \<and> fst (book_appointment ex_env ex_confirmed_db 8 ex_appointment_request)
       = Booked 2 2 (Some ''09:15'') None
   \<and> map ap_serial (appointments (snd (book_appointment ex_env ex_confirmed_db 8 ex_appointment_request)))
       = [1, 2]"
  unfolding ex_confirmed_db_def by code_simp
subsection \<open>Claim C9: the ambulance service\<close>

lemma min_to_hhmm_nonempty: "min_to_hhmm m \<noteq> []"
  by (simp add: min_to_hhmm_def fmt02_def Let_def)

lemma ambulance_clamp:
  assumes "wstart_min_of wstart = Some ws" "wend_min_of wend = Some we"
  shows "\<exists>x. clamp_desired (hhmm_to_min (desired_of (Some (min_to_hhmm m)) wstart))
               (wstart_min_of wstart) (wend_min_of wend) = Inr x"
  by (simp add: desired_of_def min_to_hhmm_nonempty hhmm_roundtrip assms clamp_desired_def Let_def)

lemma ambulance_books:
  assumes p: "precheck d rq = Inr svc" and a: "is_ambulance svc"
    and u: "count_user_booked d u (rq_service_id rq) (date_of (now e)) = 0"
    and c: "\<not> (0 < mpd_of svc \<and> mpd_of svc \<le> count_booked d (rq_service_id rq) (date_of (now e)))"
    and ws: "wstart_min_of (window_of (hs_window_start_time svc)) = Some ws"
    and we: "wend_min_of (window_of (hs_window_end_time svc)) = Some we"
  shows "fst (book_service e d u rq) =
           Booked (next_id (map sb_id (service_bookings d)))
             (count_booked d (rq_service_id rq) (date_of (now e)) + 1)
             (Some (min_to_hhmm (minute_of_day (now e + 15 * usec_per_min))))
             (Some (strftime_seconds (now e + 15 * usec_per_min)))"
proof -
  have ew: "effective_date_of e svc rq = Some (date_of (now e))"
      "date_part_of e svc rq = Some (Today (date_of (now e)))"
      "time_part_of e svc rq = Some (min_to_hhmm (minute_of_day (now e)))"
      "section_date_of e rq (Some (Today (date_of (now e)))) = Some (date_of (now e))"
    using a by (simp_all add: effective_date_of_def date_part_of_def time_part_of_def
                  section_date_of_def)
  have on: "count_booked_on d (rq_service_id rq) (Some (date_of (now e)))
              = count_booked d (rq_service_id rq) (date_of (now e))"
      "count_user_booked_on d u (rq_service_id rq) (Some (date_of (now e)))
              = count_user_booked d u (rq_service_id rq) (date_of (now e))"
    by (simp_all add: count_booked_on_def count_user_booked_on_def)
  from ambulance_clamp[OF ws we, of "minute_of_day (now e)"] obtain x where
    x: "clamp_desired (hhmm_to_min (desired_of (Some (min_to_hhmm (minute_of_day (now e))))
                                      (window_of (hs_window_start_time svc))))
          (wstart_min_of (window_of (hs_window_start_time svc)))
          (wend_min_of (window_of (hs_window_end_time svc))) = Inr x"
    by blast
  show ?thesis
    using u c a by (simp add: fst_book_service p ew on fst_locked_section x)
qed

text \<open>
  Claim C9 as stated: for a provider marked immediate (a service whose name contains
  \<open>ambulance\<close>) every booking request succeeds and is never blocked by a capacity
  limit. That fails: the per-day checks of \<open>book_service\<close> come before the ambulance case
  and use today's date for it (the source says so: "ambulance uses today"), so an
  ambulance service with \<open>max_per_day\<close> 1 and one booked booking today answers
  \<open>full\<close>, and a requester who already holds one today is answered \<open>one_per_day\<close>.
\<close>

theorem ambulance_booking_counterexample:
  "is_ambulance (ex_ambulance (Some 1))
   \<and> precheck (ex_ambulance_db [ex_booking 1 4 (at_minute 20001 300) ''booked'' 1]) (ex_request ''09:15'')
       = Inr (ex_ambulance (Some 1))
   \<and> fst (book_service ex_env (ex_ambulance_db [ex_booking 1 4 (at_minute 20001 300) ''booked'' 1])
             7 (ex_request ''09:15''))
       = Error ''full'' 400
   \<and> fst (book_service ex_env (ex_ambulance_db [ex_booking 1 7 (at_minute 20001 300) ''booked'' 1])
             7 (ex_request ''09:15''))
       = Error ''one_per_day'' 400"
  unfolding ex_ambulance_db_def by code_simp

text \<open>
  Claim C9, amended. For an ambulance service, a request that passes the checks
  before the per-day rules, from a requester without a booked booking of the service
  today, made while the service's \<open>max_per_day\<close> is unset or not reached by today's
  booked bookings, succeeds: its serial is today's count of booked bookings plus one,
  its \<open>approx_time\<close> and \<open>scheduled_at\<close> are the clock plus 15 minutes (to the
  second), whatever time the request asks for, whatever the window of the service and
  whatever times are taken; the window check and the slot search are not run. (The
  window bounds, when the service has any, are taken to be readable \<open>'HH:MM'\<close> text,
  as the \<open>TIME\<close> columns they come from are.)
\<close>

theorem ambulance_booking:
  "precheck d rq = Inr svc \<and> is_ambulance svc
   \<and> count_user_booked d u (rq_service_id rq) (date_of (now e)) = 0
   \<and> \<not> (0 < mpd_of svc \<and> mpd_of svc \<le> count_booked d (rq_service_id rq) (date_of (now e)))
   \<and> wstart_min_of (window_of (hs_window_start_time svc)) = Some ws
   \<and> wend_min_of (window_of (hs_window_end_time svc)) = Some we
   \<longrightarrow> fst (book_service e d u rq) =
         Booked (next_id (map sb_id (service_bookings d)))
           (count_booked d (rq_service_id rq) (date_of (now e)) + 1)
           (Some (min_to_hhmm (minute_of_day (now e + 15 * usec_per_min))))
           (Some (strftime_seconds (now e + 15 * usec_per_min)))
       \<and> service_bookings (snd (book_service e d u rq)) =
         service_bookings d @
           [new_service_booking (next_id (map sb_id (service_bookings d))) u rq
              (Some (strftime_seconds (now e + 15 * usec_per_min)))
              (count_booked d (rq_service_id rq) (date_of (now e)) + 1)
              (Some (min_to_hhmm (minute_of_day (now e + 15 * usec_per_min))))]"
proof (intro impI)
  assume h: "precheck d rq = Inr svc \<and> is_ambulance svc
   \<and> count_user_booked d u (rq_service_id rq) (date_of (now e)) = 0
   \<and> \<not> (0 < mpd_of svc \<and> mpd_of svc \<le> count_booked d (rq_service_id rq) (date_of (now e)))
   \<and> wstart_min_of (window_of (hs_window_start_time svc)) = Some ws
   \<and> wend_min_of (window_of (hs_window_end_time svc)) = Some we"
  then have f: "fst (book_service e d u rq) =
         Booked (next_id (map sb_id (service_bookings d)))
           (count_booked d (rq_service_id rq) (date_of (now e)) + 1)
           (Some (min_to_hhmm (minute_of_day (now e + 15 * usec_per_min))))
           (Some (strftime_seconds (now e + 15 * usec_per_min)))"
    using ambulance_books by blast
  show "fst (book_service e d u rq) =
         Booked (next_id (map sb_id (service_bookings d)))
           (count_booked d (rq_service_id rq) (date_of (now e)) + 1)
           (Some (min_to_hhmm (minute_of_day (now e + 15 * usec_per_min))))
           (Some (strftime_seconds (now e + 15 * usec_per_min)))
       \<and> service_bookings (snd (book_service e d u rq)) =
         service_bookings d @
           [new_service_booking (next_id (map sb_id (service_bookings d))) u rq
              (Some (strftime_seconds (now e + 15 * usec_per_min)))
              (count_booked d (rq_service_id rq) (date_of (now e)) + 1)
              (Some (min_to_hhmm (minute_of_day (now e + 15 * usec_per_min))))]"
    by (simp add: rows_book_service f)
qed

theorem ambulance_booking_witness:
  "precheck ex_windowed_db (ex_request ''09:15'') = Inr ex_windowed_ambulance
   \<and> is_ambulance ex_windowed_ambulance
   \<and> count_user_booked ex_windowed_db 7 (rq_service_id (ex_request ''09:15''))
        (date_of (now ex_env)) = 0
   \<and> \<not> (0 < mpd_of ex_windowed_ambulance
         \<and> mpd_of ex_windowed_ambulance
            \<le> count_booked ex_windowed_db (rq_service_id (ex_request ''09:15''))
                 (date_of (now ex_env)))
   \<and> wstart_min_of (window_of (hs_window_start_time ex_windowed_ambulance)) = Some 540
   \<and> wend_min_of (window_of (hs_window_end_time ex_windowed_ambulance)) = Some 720
   \<and> taken_times ex_windowed_db 1 20001 = {''08:15''}
   \<and> fst (book_service ex_env ex_windowed_db 7 (ex_request ''09:15''))
       = Booked 2 2 (Some ''08:15'') (Some (at_minute 20001 495))"
proof -
  note t = ambulance_booking [of ex_windowed_db "ex_request ''09:15''" ex_windowed_ambulance 7
             ex_env 540 720]
  have h1: "precheck ex_windowed_db (ex_request ''09:15'') = Inr ex_windowed_ambulance"
    unfolding ex_windowed_db_def by code_simp
  have h2: "is_ambulance ex_windowed_ambulance" by code_simp
  have h3: "count_user_booked ex_windowed_db 7 (rq_service_id (ex_request ''09:15''))
              (date_of (now ex_env)) = 0"
    unfolding ex_windowed_db_def by code_simp
  have h4: "\<not> (0 < mpd_of ex_windowed_ambulance
         \<and> mpd_of ex_windowed_ambulance
            \<le> count_booked ex_windowed_db (rq_service_id (ex_request ''09:15''))
                 (date_of (now ex_env)))"
    unfolding ex_windowed_db_def by code_simp
  have h5: "wstart_min_of (window_of (hs_window_start_time ex_windowed_ambulance)) = Some 540"
    by code_simp
  have h6: "wend_min_of (window_of (hs_window_end_time ex_windowed_ambulance)) = Some 720"
    by code_simp
  have h7: "taken_times ex_windowed_db 1 20001 = {''08:15''}"
    unfolding ex_windowed_db_def by code_simp
  have v: "next_id (map sb_id (service_bookings ex_windowed_db)) = 2"
      "count_booked ex_windowed_db (rq_service_id (ex_request ''09:15'')) (date_of (now ex_env)) + 1 = 2"
      "min_to_hhmm (minute_of_day (now ex_env + 15 * usec_per_min)) = ''08:15''"
      "strftime_seconds (now ex_env + 15 * usec_per_min) = at_minute 20001 495"
    unfolding ex_windowed_db_def by code_simp+
  note c = t [rule_format, OF conjI [OF h1 conjI [OF h2 conjI [OF h3 conjI [OF h4 conjI [OF h5 h6]]]]],
              THEN conjunct1, unfolded v]
  show ?thesis
    by (intro conjI) (fact h1 h2 h3 h4 h5 h6 h7 c)+
qed

subsection \<open>Claim C4: the lock that cannot be obtained\<close>

lemma crisis_ignores_locks:
  "require_crisis_open (d\<lparr>locks := l\<rparr>) c = require_crisis_open d c"
  "no_beds (d\<lparr>locks := l\<rparr>) rq svc = no_beds d rq svc"
  by (simp_all add: no_beds_def require_crisis_open_def incident_status_for_crisis_def
        cong: option.case_cong)

lemma readers_ignore_locks:
  "precheck (d\<lparr>locks := l\<rparr>) rq = precheck d rq"
  "count_booked (d\<lparr>locks := l\<rparr>) sid day = count_booked d sid day"
  "count_user_booked (d\<lparr>locks := l\<rparr>) u sid day = count_user_booked d u sid day"
  "taken_times (d\<lparr>locks := l\<rparr>) sid day = taken_times d sid day"
  "appointment_precheck (d\<lparr>locks := l\<rparr>) aq = appointment_precheck d aq"
  "day_rows (d\<lparr>locks := l\<rparr>) a b day = day_rows d a b day"
  "count_booked_on (d\<lparr>locks := l\<rparr>) sid dayo = count_booked_on d sid dayo"
  "count_user_booked_on (d\<lparr>locks := l\<rparr>) u sid dayo = count_user_booked_on d u sid dayo"
  "taken_times_on (d\<lparr>locks := l\<rparr>) sid dayo = taken_times_on d sid dayo"
  by (simp_all add: precheck_def crisis_ignores_locks
        count_booked_def count_user_booked_def booked_rows_def taken_times_def
        appointment_precheck_def schedules_for_def day_rows_def
        count_booked_on_def count_user_booked_on_def taken_times_on_def
        cong: option.case_cong if_cong)

lemma fst_book_service_locks:
  "fst (book_service e (d\<lparr>locks := l\<rparr>) u rq) = fst (book_service e d u rq)"
  by (simp add: fst_book_service fst_locked_section readers_ignore_locks
        cong: sum.case_cong if_cong option.case_cong)

lemma rows_book_service_locks:
  "service_bookings (snd (book_service e (d\<lparr>locks := l\<rparr>) u rq))
     = service_bookings (snd (book_service e d u rq))"
  by (simp add: rows_book_service fst_book_service_locks cong: response.case_cong)

lemma appointment_precheck_Inl:
  assumes "appointment_precheck d aq = Inl err"
  shows "\<exists>code. err = Error code 400"
  using assms
  by (auto simp: appointment_precheck_def Let_def split: option.splits if_splits prod.splits)

lemma fst_book_appointment:
  "fst (book_appointment e d u aq) =
     (case appointment_precheck d aq of
        Inl err \<Rightarrow> err
      | Inr (starts_at, ends_at, schedules) \<Rightarrow>
          if filter (\<lambda>r. ap_patient_user_id r = u)
               (day_rows d (aq_doctor_user_id aq) (aq_hospital_user_id aq) (date_of starts_at)) \<noteq> []
          then Error ''already_booked_same_day'' 400
          else if max_per_day_of schedules \<noteq> 0
                  \<and> max_per_day_of schedules
                       \<le> int (length (day_rows d (aq_doctor_user_id aq) (aq_hospital_user_id aq)
                                         (date_of starts_at)))
          then Error ''capacity_full'' 400
          else Booked (next_id (map ap_id (appointments d)))
                 (int (length (day_rows d (aq_doctor_user_id aq) (aq_hospital_user_id aq)
                                 (date_of starts_at))) + 1)
                 (approx_time_of schedules starts_at ends_at
                    (int (length (day_rows d (aq_doctor_user_id aq) (aq_hospital_user_id aq)
                                    (date_of starts_at))) + 1))
                 None)"
proof (cases "appointment_precheck d aq")
  case (Inl err)
  then show ?thesis by (simp add: book_appointment_def)
next
  case (Inr t)
  obtain starts_at ends_at schedules where t: "t = (starts_at, ends_at, schedules)"
    by (cases t) auto
  show ?thesis
    by (simp add: book_appointment_unfold[OF Inr[unfolded t]] Inr t Let_def)
qed

lemma rows_book_appointment:
  "appointments (snd (book_appointment e d u aq)) =
     (case fst (book_appointment e d u aq) of
        Booked appt_id serial approx x \<Rightarrow> appointments d @ [new_appointment appt_id u aq serial approx]
      | _ \<Rightarrow> appointments d)"
proof (cases "appointment_precheck d aq")
  case (Inl err)
  from appointment_precheck_Inl[OF Inl] show ?thesis
    by (auto simp: book_appointment_def Inl)
next
  case (Inr t)
  obtain starts_at ends_at schedules where t: "t = (starts_at, ends_at, schedules)"
    by (cases t) auto
  show ?thesis
    by (rule book_appointment_rows[OF Inr[unfolded t]])
qed

lemma fst_book_appointment_locks:
  "fst (book_appointment e (d\<lparr>locks := l\<rparr>) u aq) = fst (book_appointment e d u aq)"
  by (simp add: fst_book_appointment readers_ignore_locks
        cong: sum.case_cong prod.case_cong if_cong)

lemma rows_book_appointment_locks:
  "appointments (snd (book_appointment e (d\<lparr>locks := l\<rparr>) u aq))
     = appointments (snd (book_appointment e d u aq))"
  by (simp add: rows_book_appointment fst_book_appointment_locks cong: response.case_cong)

lemma book_service_no_409: "fst (book_service e d u rq) \<noteq> Error code 409"
proof (cases "precheck d rq")
  case (Inl err)
  from precheck_Inl[OF Inl] show ?thesis
    by (auto simp: fst_book_service Inl)
next
  case (Inr svc)
  show ?thesis
    by (simp add: fst_book_service Inr fst_locked_section split: sum.splits option.splits)
qed

lemma book_appointment_no_409: "fst (book_appointment e d u aq) \<noteq> Error code 409"
proof (cases "appointment_precheck d aq")
  case (Inl err)
  from appointment_precheck_Inl[OF Inl] show ?thesis
    by (auto simp: fst_book_appointment Inl)
next
  case (Inr t)
  then show ?thesis
    by (cases t) (simp add: fst_book_appointment Inr)
qed

lemma get_lock_timeout:
  assumes "mysql e" "locks d k = Some other" "other \<noteq> session e"
  shows "fst (get_lock e d k) = False" "locks (snd (get_lock e d k)) = locks d"
  using assms by (simp_all add: get_lock_def)

text \<open>
  Claim C4 as stated: when the advisory lock cannot be obtained within the ten
  seconds, both handlers fail with a retryable contention error (HTTP 409) rather
  than go on. Neither does: with the locks of the day held by another session,
  \<open>GET_LOCK\<close> answers 0 and both handlers go on to insert the booking.
\<close>

theorem lock_timeout_counterexample:
  "mysql ex_env \<and> session ex_env = 1
   \<and> locks ex_locked_db (Svc_lock 1 ''2024-10-05'') = Some 9
   \<and> fst (book_service ex_env ex_locked_db 7 (ex_request ''09:15''))
       = Booked 1 1 (Some ''09:15'') (Some (at_minute 20001 555))
   \<and> oplog (snd (book_service ex_env ex_locked_db 7 (ex_request ''09:15'')))
       = [Get_lock (Svc_lock 1 ''2024-10-05'') False, Release_lock (Svc_lock 1 ''2024-10-05''),
          Insert_service_booking 1]
   \<and> locks ex_locked_db (Appointments_lock 3 2 20001) = Some 9
   \<and> fst (book_appointment ex_env ex_locked_db 7 ex_appointment_request)
       = Booked 1 1 (Some ''09:00'') None
   \<and> oplog (snd (book_appointment ex_env ex_locked_db 7 ex_appointment_request))
       = [Get_lock (Appointments_lock 3 2 20001) False, Insert_appointment 1]"
  unfolding ex_locked_db_def by code_simp

text \<open>
  Claim C4, amended. In both \<open>book_service\<close> and \<open>book_appointment\<close> the lock is
  best-effort: when the advisory lock is held by another session, so that \<open>GET_LOCK\<close>
  is not obtained within its ten seconds, the handler goes on without the lock, and
  its response and the rows it inserts are what they are when the lock is free;
  neither handler has a contention error, and neither ever answers with status 409.
\<close>

theorem lock_timeout:
  "mysql e \<and> locks d k = Some other \<and> other \<noteq> session e
   \<longrightarrow> \<not> fst (get_lock e d k)
       \<and> fst (book_service e d u rq) = fst (book_service e (d\<lparr>locks := (locks d)(k := None)\<rparr>) u rq)
       \<and> service_bookings (snd (book_service e d u rq))
           = service_bookings (snd (book_service e (d\<lparr>locks := (locks d)(k := None)\<rparr>) u rq))
       \<and> fst (book_service e d u rq) \<noteq> Error code 409
       \<and> fst (book_appointment e d u aq)
           = fst (book_appointment e (d\<lparr>locks := (locks d)(k := None)\<rparr>) u aq)
       \<and> appointments (snd (book_appointment e d u aq))
           = appointments (snd (book_appointment e (d\<lparr>locks := (locks d)(k := None)\<rparr>) u aq))
       \<and> fst (book_appointment e d u aq) \<noteq> Error code 409"
  by (simp add: get_lock_timeout fst_book_service_locks rows_book_service_locks
        fst_book_appointment_locks rows_book_appointment_locks
        book_service_no_409 book_appointment_no_409)

theorem lock_timeout_witness:
  "mysql ex_env \<and> locks ex_locked_db (Svc_lock 1 ''2024-10-05'') = Some 9 \<and> 9 \<noteq> session ex_env
   \<and> \<not> fst (get_lock ex_env ex_locked_db (Svc_lock 1 ''2024-10-05''))
   \<and> fst (book_service ex_env ex_locked_db 7 (ex_request ''09:15''))
       = fst (book_service ex_env
                (ex_locked_db\<lparr>locks := (locks ex_locked_db)(Svc_lock 1 ''2024-10-05'' := None)\<rparr>)
                7 (ex_request ''09:15''))
   \<and> fst (book_service ex_env ex_locked_db 7 (ex_request ''09:15'')) \<noteq> Error ''contention'' 409
   \<and> locks ex_locked_db (Appointments_lock 3 2 20001) = Some 9
   \<and> \<not> fst (get_lock ex_env ex_locked_db (Appointments_lock 3 2 20001))
   \<and> fst (book_appointment ex_env ex_locked_db 7 ex_appointment_request)
       = fst (book_appointment ex_env
                (ex_locked_db\<lparr>locks := (locks ex_locked_db)(Appointments_lock 3 2 20001 := None)\<rparr>)
                7 ex_appointment_request)
   \<and> fst (book_appointment ex_env ex_locked_db 7 ex_appointment_request)
       \<noteq> Error ''contention'' 409"
proof -
  note s = lock_timeout [of ex_env ex_locked_db "Svc_lock 1 ''2024-10-05''" 9 7 "ex_request ''09:15''"
             "''contention''" ex_appointment_request]
  note a = lock_timeout [of ex_env ex_locked_db "Appointments_lock 3 2 20001" 9 7
             "ex_request ''09:15''" "''contention''" ex_appointment_request]
  have h1: "mysql ex_env" by code_simp
  have h2: "locks ex_locked_db (Svc_lock 1 ''2024-10-05'') = Some 9"
    unfolding ex_locked_db_def by code_simp
  have h3: "9 \<noteq> session ex_env" by code_simp
  have h4: "locks ex_locked_db (Appointments_lock 3 2 20001) = Some 9"
    unfolding ex_locked_db_def by code_simp
  note cs = s [rule_format, OF conjI [OF h1 conjI [OF h2 h3]]]
  note ca = a [rule_format, OF conjI [OF h1 conjI [OF h4 h3]]]
  note c1 = cs [THEN conjunct1]
  note c2 = cs [THEN conjunct2, THEN conjunct1]
  note c3 = cs [THEN conjunct2, THEN conjunct2, THEN conjunct2, THEN conjunct1]
  note c4 = ca [THEN conjunct1]
  note c5 = ca [THEN conjunct2, THEN conjunct2, THEN conjunct2, THEN conjunct2, THEN conjunct1]
  note c6 = ca [THEN conjunct2, THEN conjunct2, THEN conjunct2, THEN conjunct2, THEN conjunct2,
                THEN conjunct2]
  show ?thesis
    by (intro conjI) (fact h1 h2 h3 c1 c2 c3 h4 c4 c5 c6)+
qed

subsection \<open>Claim C7: the insertion and the lock\<close>

text \<open>
  The statement log of a handler records its lock statements and its \<open>INSERT\<close>, in the order
  in which they reach the database.
\<close>

lemma lock_logs:
  "mysql e \<Longrightarrow> oplog (snd (get_lock e d k)) = oplog d @ [Get_lock k (fst (get_lock e d k))]"
  "mysql e \<Longrightarrow> oplog (release_lock e d k) = oplog d @ [Release_lock k]"
  by (simp_all add: get_lock_def release_lock_def split: option.splits)

lemma lock_released:
  assumes "locks d k \<noteq> Some (session e)"
  shows "locks (release_lock e (snd (get_lock e d k)) k) = locks d"
  using assms
  by (cases "locks d k") (auto simp: get_lock_def release_lock_def)

lemma release_then_insert_log:
  assumes "mysql e"
  shows "oplog (snd (release_then_insert e d1 k u rq serial approx sched))
           = oplog d1 @ [Release_lock k, Insert_service_booking (next_id (map sb_id (service_bookings d1)))]"
    and "locks (snd (release_then_insert e d1 k u rq serial approx sched)) = locks (release_lock e d1 k)"
  using assms
  by (simp_all add: release_then_insert_def insert_service_booking_def Let_def lock_logs
        release_lock_frame)

text \<open>
  On MySQL, a \<open>book_service\<close> that books logs \<open>GET_LOCK\<close>, \<open>RELEASE_LOCK\<close>, \<open>INSERT\<close>, in
  this order: the row is inserted after the lock is given back.
\<close>

lemma book_service_log:
  assumes m: "mysql e" and p: "precheck d rq = Inr svc"
    and b: "fst (book_service e d u rq) = Booked bid serial approx sched"
  shows "oplog (snd (book_service e d u rq))
           = oplog d @ [Get_lock (Svc_lock (rq_service_id rq) (lock_date_of (date_part_of e svc rq)))
                          (fst (get_lock e d (Svc_lock (rq_service_id rq) (lock_date_of (date_part_of e svc rq))))),
                        Release_lock (Svc_lock (rq_service_id rq) (lock_date_of (date_part_of e svc rq))),
                        Insert_service_booking bid]"
proof -
  let ?k = "Svc_lock (rq_service_id rq) (lock_date_of (date_part_of e svc rq))"
  let ?ls = "locked_section e d u rq svc (date_part_of e svc rq) (time_part_of e svc rq)"
  have f: "service_bookings (snd (get_lock e d ?k)) = service_bookings d"
    by (rule get_lock_frame)
  from b have c: "\<not> count_user_booked_on d u (rq_service_id rq) (effective_date_of e svc rq) > 0"
    "\<not> (mpd_of svc > 0 \<and> count_booked_on d (rq_service_id rq) (effective_date_of e svc rq) \<ge> mpd_of svc)"
    "\<not> (\<not> is_ambulance svc \<and> outside_window svc (time_part_of e svc rq))"
    by (simp_all add: book_service_unfold[OF p] split: if_splits)
  have eq: "book_service e d u rq = ?ls"
    unfolding book_service_unfold[OF p] if_not_P[OF c(1)] if_not_P[OF c(2)] if_not_P[OF c(3)] ..
  from b have bl: "fst ?ls = Booked bid serial approx sched" by (simp add: eq)
  then have bid: "bid = next_id (map sb_id (service_bookings d))"
    by (auto simp: fst_locked_section split: if_splits sum.splits option.splits)
  from bl have "oplog (snd ?ls) = oplog (snd (get_lock e d ?k))
                  @ [Release_lock ?k, Insert_service_booking (next_id (map sb_id (service_bookings d)))]"
    by (auto simp: locked_section_unfold Let_def release_then_insert_log[OF m] f
             release_then_insert_result(1)[OF f]
             split: if_splits sum.splits option.splits)
  then show ?thesis
    by (simp add: eq lock_logs(1)[OF m] bid)
qed

lemma book_service_inserts_unlocked:
  assumes "mysql e" "precheck d rq = Inr svc" "oplog d = []"
    "fst (book_service e d u rq) = Booked bid serial approx sched"
  shows "\<not> inserts_under_lock (Svc_lock (rq_service_id rq) (lock_date_of (date_part_of e svc rq))) False
             (oplog (snd (book_service e d u rq)))"
  by (simp add: book_service_log[OF assms(1,2,4)] assms(3))

text \<open>Both handlers give the lock back on every way out.\<close>

lemma book_service_releases:
  assumes p: "precheck d rq = Inr svc"
    and n: "locks d (Svc_lock (rq_service_id rq) (lock_date_of (date_part_of e svc rq))) \<noteq> Some (session e)"
  shows "locks (snd (book_service e d u rq)) = locks d"
proof -
  let ?k = "Svc_lock (rq_service_id rq) (lock_date_of (date_part_of e svc rq))"
  have r: "locks (release_lock e (snd (get_lock e d ?k)) ?k) = locks d"
    by (rule lock_released[OF n])
  have i: "locks (snd (release_then_insert e (snd (get_lock e d ?k)) ?k u rq serial approx sched)) = locks d"
    for serial approx sched
    by (simp add: release_then_insert_def insert_service_booking_def Let_def r)
  show ?thesis
    unfolding book_service_unfold[OF p] locked_section_unfold Let_def
    by (simp add: r i split: sum.splits option.splits)
qed

lemma book_appointment_releases:
  assumes p: "appointment_precheck d aq = Inr (starts_at, ends_at, schedules)"
    and n: "locks d (Appointments_lock (aq_doctor_user_id aq) (aq_hospital_user_id aq) (date_of starts_at))
              \<noteq> Some (session e)"
  shows "locks (snd (book_appointment e d u aq)) = locks d"
proof -
  let ?k = "Appointments_lock (aq_doctor_user_id aq) (aq_hospital_user_id aq) (date_of starts_at)"
  from n have g: "fst (get_lock e d ?k) \<longleftrightarrow> mysql e \<and> locks d ?k = None"
    by (cases "locks d ?k") (auto simp: get_lock_def)
  have r: "locks (release_if (fst (get_lock e d ?k)) e (snd (get_lock e d ?k)) ?k) = locks d"
    using n by (cases "locks d ?k") (auto simp: release_if_def get_lock_def release_lock_def)
  have i: "locks (release_if (fst (get_lock e d ?k)) e
              (snd (insert_appointment (snd (get_lock e d ?k)) u aq serial approx)) ?k) = locks d"
    for serial approx
    using n by (cases "locks d ?k")
      (auto simp: release_if_def get_lock_def release_lock_def insert_appointment_def Let_def)
  show ?thesis
    unfolding book_appointment_unfold[OF p] Let_def
    by (simp add: r i)
qed

text \<open>
  \<open>book_appointment\<close> that books, the lock free before, logs \<open>GET_LOCK\<close>, \<open>INSERT\<close>,
  \<open>RELEASE_LOCK\<close>: the row is inserted under the lock.
\<close>

lemma book_appointment_log:
  assumes m: "mysql e"
    and p: "appointment_precheck d aq = Inr (starts_at, ends_at, schedules)"
    and b: "fst (book_appointment e d u aq) = Booked appt_id serial approx x"
    and l: "locks d (Appointments_lock (aq_doctor_user_id aq) (aq_hospital_user_id aq) (date_of starts_at)) = None"
  shows "oplog (snd (book_appointment e d u aq))
           = oplog d @ [Get_lock (Appointments_lock (aq_doctor_user_id aq) (aq_hospital_user_id aq) (date_of starts_at)) True,
                        Insert_appointment appt_id,
                        Release_lock (Appointments_lock (aq_doctor_user_id aq) (aq_hospital_user_id aq) (date_of starts_at))]"
proof -
  let ?k = "Appointments_lock (aq_doctor_user_id aq) (aq_hospital_user_id aq) (date_of starts_at)"
  note c = book_appointment_Booked[OF p b]
  have g: "get_lock e d ?k = (True, d\<lparr>locks := (locks d)(?k \<mapsto> session e), oplog := oplog d @ [Get_lock ?k True]\<rparr>)"
    using m l by (simp add: get_lock_def)
  show ?thesis
    unfolding book_appointment_unfold[OF p] if_not_P[OF c(5)] Let_def g
    using c(4) m
    by (simp add: release_if_def release_lock_def insert_appointment_def Let_def c(2))
qed

lemma book_appointment_inserts_locked:
  assumes "mysql e" "appointment_precheck d aq = Inr (starts_at, ends_at, schedules)"
    "fst (book_appointment e d u aq) = Booked appt_id serial approx x"
    "locks d (Appointments_lock (aq_doctor_user_id aq) (aq_hospital_user_id aq) (date_of starts_at)) = None"
    "oplog d = []"
  shows "inserts_under_lock (Appointments_lock (aq_doctor_user_id aq) (aq_hospital_user_id aq) (date_of starts_at)) False
             (oplog (snd (book_appointment e d u aq)))"
  by (simp add: book_appointment_log[OF assms(1-4)] assms(5))

text \<open>
  Claim C7: in both booking handlers the booking is inserted while the advisory lock is held,
  and the lock is released on every way out of the handler.

  The release holds of both handlers (\<open>book_service_releases\<close>,
  \<open>book_appointment_releases\<close>), and the insertion under the lock holds of
  \<open>book_appointment\<close> (\<open>book_appointment_inserts_locked\<close>). It fails of
  \<open>book_service\<close>: the \<open>finally\<close> that releases the lock closes the \<open>try\<close> that computes the
  serial and the approximate time, and the \<open>INSERT\<close> comes after it
  (\<open>book_service_inserts_unlocked\<close>). The first booking of service 1 at hospital 2 for day
  20001, asked for 09:15 by user 7 on MySQL with the lock free, is booked with serial 1 at
  09:15 by the statements \<open>GET_LOCK\<close>, \<open>RELEASE_LOCK\<close>, \<open>INSERT\<close>; the first appointment with
  doctor 3 at hospital 2 on the same day is booked by \<open>GET_LOCK\<close>, \<open>INSERT\<close>,
  \<open>RELEASE_LOCK\<close>.
\<close>

theorem lock_released_before_insert:
  "fst (book_service ex_env (ex_db (ex_xray None) [] [] Map.empty) 7 (ex_request ''09:15''))
     = Booked 1 1 (Some ''09:15'') (Some (at_minute 20001 555))
   \<and> oplog (snd (book_service ex_env (ex_db (ex_xray None) [] [] Map.empty) 7 (ex_request ''09:15'')))
     = [Get_lock (Svc_lock 1 ''2024-10-05'') True, Release_lock (Svc_lock 1 ''2024-10-05''), Insert_service_booking 1]
   \<and> \<not> inserts_under_lock (Svc_lock 1 ''2024-10-05'') False
         (oplog (snd (book_service ex_env (ex_db (ex_xray None) [] [] Map.empty) 7
                        (ex_request ''09:15''))))
   \<and> fst (book_appointment ex_env (ex_db (ex_xray None) [] [] Map.empty) 7 ex_appointment_request)
     = Booked 1 1 (Some ''09:00'') None
   \<and> oplog (snd (book_appointment ex_env (ex_db (ex_xray None) [] [] Map.empty) 7
                    ex_appointment_request))
     = [Get_lock (Appointments_lock 3 2 20001) True, Insert_appointment 1,
        Release_lock (Appointments_lock 3 2 20001)]
   \<and> inserts_under_lock (Appointments_lock 3 2 20001) False
         (oplog (snd (book_appointment ex_env (ex_db (ex_xray None) [] [] Map.empty) 7
                        ex_appointment_request)))"
  by code_simp

subsection \<open>Claim C8: the requester's cancellation\<close>

text \<open>
  The answers of the two cancellation handlers to the owner of the booking, by the
  status of the booking and by the time that is left.
\<close>

lemma find_map_key:
  assumes "find (\<lambda>r. key r = k) xs = Some x" and "\<And>r. key (f r) = key r"
  shows "find (\<lambda>r. key r = k) (map f xs) = Some (f x)"
  using assms(1) by (induction xs) (auto simp: assms(2))










subsection \<open>Claim C10: hiding a booking\<close>

lemma find_map_other:
  assumes "\<And>r. key (f r) = key r" and "\<And>r. key r \<noteq> k \<Longrightarrow> f r = r"
  shows "b \<noteq> k \<Longrightarrow> find (\<lambda>r. key r = b) (map f xs) = find (\<lambda>r. key r = b) xs"
  by (induction xs) (auto simp: assms)

lemma hide_by_owner:
  assumes f: "service_booking_by_id d bid = Some sb" and o: "sb_user_id sb = u"
  shows "fst (hide_service_booking False d u bid) = Ok"
    and "service_booking_by_id (snd (hide_service_booking False d u bid)) bid
           = Some (sb\<lparr>sb_hidden_by_user := 1\<rparr>)"
    and "b \<noteq> bid \<Longrightarrow> service_booking_by_id (snd (hide_service_booking False d u bid)) b
                        = service_booking_by_id d b"
    and "(snd (hide_service_booking False d u bid))\<lparr>service_bookings := service_bookings d\<rparr> = d"
proof -
  let ?f = "\<lambda>r. if sb_id r = bid \<and> sb_user_id r = u then r\<lparr>sb_hidden_by_user := 1\<rparr> else r"
  have s: "hide_service_booking False d u bid = (Ok, d\<lparr>service_bookings := map ?f (service_bookings d)\<rparr>)"
    by (simp add: hide_service_booking_def f o)
  from f have i: "sb_id sb = bid"
    by (auto simp: service_booking_by_id_def dest: find_Some_iff[THEN iffD1])
  have k: "sb_id (?f r) = sb_id r" for r by simp
  have n: "sb_id r \<noteq> bid \<Longrightarrow> ?f r = r" for r by simp
  show "fst (hide_service_booking False d u bid) = Ok" by (simp add: s)
  have "find (\<lambda>r. sb_id r = bid) (map ?f (service_bookings d)) = Some (?f sb)"
    by (rule find_map_key[where key = sb_id and f = ?f, OF f[unfolded service_booking_by_id_def] k])
  then show "service_booking_by_id (snd (hide_service_booking False d u bid)) bid
           = Some (sb\<lparr>sb_hidden_by_user := 1\<rparr>)"
    by (simp add: s service_booking_by_id_def i o)
  show "service_booking_by_id (snd (hide_service_booking False d u bid)) b = service_booking_by_id d b"
    if "b \<noteq> bid"
    using find_map_other[where key = sb_id and f = ?f and k = bid and b = b, OF k n that]
    by (simp add: s service_booking_by_id_def)
  show "(snd (hide_service_booking False d u bid))\<lparr>service_bookings := service_bookings d\<rparr> = d"
    by (simp add: s)
qed

lemma hide_raises:
  assumes "service_booking_by_id d bid = Some sb" and "sb_user_id sb = u"
  shows "hide_service_booking True d u bid = (Error ''hide_failed'' 400, d)"
  by (simp add: hide_service_booking_def assms)

lemma hide_by_other:
  assumes "service_booking_by_id d bid = Some sb" and "sb_user_id sb \<noteq> u"
  shows "hide_service_booking raises d u bid = (Error ''forbidden'' 403, d)"
  by (simp add: hide_service_booking_def assms)

text \<open>
  Claim C10: for every existing service booking, \<open>hide_service_booking\<close> called by the
  owner of the booking sets only the field \<open>hidden_by_user\<close> to 1 and leaves every other
  field of the booking (status, serial, scheduled time, approximate time, notes)
  unchanged; called by any other user it answers \<open>forbidden\<close> and changes nothing.

  So it is, when the database executes the \<open>UPDATE\<close>: the row of the booking becomes the
  same row with \<open>hidden_by_user = 1\<close>, the other bookings and the other tables stay as they
  are. When the \<open>UPDATE\<close> raises, the owner is answered \<open>hide_failed\<close> and nothing changes.
\<close>

theorem hide_frame:
  "service_booking_by_id d bid = Some sb \<longrightarrow>
     (sb_user_id sb = u \<longrightarrow>
        fst (hide_service_booking False d u bid) = Ok
        \<and> service_booking_by_id (snd (hide_service_booking False d u bid)) bid
            = Some (sb\<lparr>sb_hidden_by_user := 1\<rparr>)
        \<and> sb_status (sb\<lparr>sb_hidden_by_user := 1\<rparr>) = sb_status sb
        \<and> sb_serial (sb\<lparr>sb_hidden_by_user := 1\<rparr>) = sb_serial sb
        \<and> sb_scheduled_at (sb\<lparr>sb_hidden_by_user := 1\<rparr>) = sb_scheduled_at sb
        \<and> sb_approx_time (sb\<lparr>sb_hidden_by_user := 1\<rparr>) = sb_approx_time sb
        \<and> sb_notes (sb\<lparr>sb_hidden_by_user := 1\<rparr>) = sb_notes sb
        \<and> (\<forall>b. b \<noteq> bid \<longrightarrow> service_booking_by_id (snd (hide_service_booking False d u bid)) b
                                = service_booking_by_id d b)
        \<and> (snd (hide_service_booking False d u bid))\<lparr>service_bookings := service_bookings d\<rparr> = d
        \<and> hide_service_booking True d u bid = (Error ''hide_failed'' 400, d))
     \<and> (sb_user_id sb \<noteq> u \<longrightarrow> hide_service_booking raises d u bid = (Error ''forbidden'' 403, d))"
proof (intro impI conjI allI)
  assume f: "service_booking_by_id d bid = Some sb"
  show "hide_service_booking raises d u bid = (Error ''forbidden'' 403, d)" if "sb_user_id sb \<noteq> u"
    by (rule hide_by_other[OF f that])
  assume o: "sb_user_id sb = u"
  show "fst (hide_service_booking False d u bid) = Ok"
    by (rule hide_by_owner(1)[OF f o])
  show "service_booking_by_id (snd (hide_service_booking False d u bid)) bid
            = Some (sb\<lparr>sb_hidden_by_user := 1\<rparr>)"
    by (rule hide_by_owner(2)[OF f o])
  show "service_booking_by_id (snd (hide_service_booking False d u bid)) b = service_booking_by_id d b"
    if "b \<noteq> bid" for b
    by (rule hide_by_owner(3)[OF f o that])
  show "(snd (hide_service_booking False d u bid))\<lparr>service_bookings := service_bookings d\<rparr> = d"
    by (rule hide_by_owner(4)[OF f o])
  show "hide_service_booking True d u bid = (Error ''hide_failed'' 400, d)"
    by (rule hide_raises[OF f o])
qed simp_all

text \<open>
  Booking 1 of user 7, hidden by user 7, and refused to user 4.
\<close>

theorem hide_frame_witness:
  "service_booking_by_id ex_held_db 1 = Some (ex_booking 1 7 (at_minute 20001 540) ''booked'' 1)
   \<and> fst (hide_service_booking False ex_held_db 7 1) = Ok
   \<and> service_booking_by_id (snd (hide_service_booking False ex_held_db 7 1)) 1
       = Some ((ex_booking 1 7 (at_minute 20001 540) ''booked'' 1)\<lparr>sb_hidden_by_user := 1\<rparr>)
   \<and> (snd (hide_service_booking False ex_held_db 7 1))\<lparr>service_bookings := service_bookings ex_held_db\<rparr>
       = ex_held_db
   \<and> hide_service_booking True ex_held_db 7 1 = (Error ''hide_failed'' 400, ex_held_db)
   \<and> hide_service_booking True ex_held_db 4 1 = (Error ''forbidden'' 403, ex_held_db)"
proof -
  let ?b = "ex_booking 1 7 (at_minute 20001 540) ''booked'' 1"
  note o = hide_frame [where d = ex_held_db and bid = 1 and sb = ?b and u = 7]
  note x = hide_frame [where d = ex_held_db and bid = 1 and sb = ?b and u = 4 and raises = True]
  have b1: "service_booking_by_id ex_held_db 1 = Some ?b" by code_simp
  have b2: "sb_user_id ?b = 7" by code_simp
  have b3: "sb_user_id ?b \<noteq> 4" by code_simp
  note so = o [rule_format, OF b1, THEN conjunct1, rule_format, OF b2]
  note sx = x [rule_format, OF b1, THEN conjunct2, rule_format, OF b3]
  note c1 = so [THEN conjunct1]
  note c2 = so [THEN conjunct2, THEN conjunct1]
  note c3 = so [THEN conjunct2, THEN conjunct2, THEN conjunct2, THEN conjunct2, THEN conjunct2,
                THEN conjunct2, THEN conjunct2, THEN conjunct2, THEN conjunct1]
  note c4 = so [THEN conjunct2, THEN conjunct2, THEN conjunct2, THEN conjunct2, THEN conjunct2,
                THEN conjunct2, THEN conjunct2, THEN conjunct2, THEN conjunct2]
  show ?thesis
    by (intro conjI) (fact b1 c1 c2 c3 c4 sx)+
qed

end
